theory Spec2Isabelle
  imports Complex_Main "HOL-Library.Monad_Syntax"
begin

section \<open>JavaScript numbers\<close>

text \<open>
  A JavaScript \<^verbatim>\<open>number\<close> is modelled as a real number or one of the three IEEE 754 special
  values. Arithmetic on finite values is exact (rounding, overflow and underflow of the
  binary64 format are not modelled, and neither is the rounding of a store into a
  \<^verbatim>\<open>Float32Array\<close>); the special values follow IEEE 754: an undefined operation yields
  \<open>NaN\<close>, \<open>NaN\<close> propagates through every operation and makes every comparison false.
  Zero carries no sign: no divisor of the program can be the negative zero (the divisors
  are results of \<^verbatim>\<open>Math.sqrt\<close>, such a result plus one, and the constant 1000), so a
  division of a non-zero number by zero takes the sign of the dividend.
\<close>

datatype jsnum = Num real | PosInf | NegInf | NaN

fun js_neg :: "jsnum \<Rightarrow> jsnum" where
  "js_neg (Num a) = Num (- a)"
| "js_neg PosInf = NegInf"
| "js_neg NegInf = PosInf"
| "js_neg NaN = NaN"

fun js_add :: "jsnum \<Rightarrow> jsnum \<Rightarrow> jsnum" where
  "js_add (Num a) (Num b) = Num (a + b)"
| "js_add NaN _ = NaN"
| "js_add _ NaN = NaN"
| "js_add PosInf NegInf = NaN"
| "js_add NegInf PosInf = NaN"
| "js_add PosInf _ = PosInf"
| "js_add _ PosInf = PosInf"
| "js_add NegInf _ = NegInf"
| "js_add _ NegInf = NegInf"

definition js_sub :: "jsnum \<Rightarrow> jsnum \<Rightarrow> jsnum" where
  "js_sub a b = js_add a (js_neg b)"

fun js_mul :: "jsnum \<Rightarrow> jsnum \<Rightarrow> jsnum" where
  "js_mul (Num a) (Num b) = Num (a * b)"
| "js_mul NaN _ = NaN"
| "js_mul _ NaN = NaN"
| "js_mul (Num a) PosInf = (if a = 0 then NaN else if 0 < a then PosInf else NegInf)"
| "js_mul (Num a) NegInf = (if a = 0 then NaN else if 0 < a then NegInf else PosInf)"
| "js_mul PosInf (Num b) = (if b = 0 then NaN else if 0 < b then PosInf else NegInf)"
| "js_mul NegInf (Num b) = (if b = 0 then NaN else if 0 < b then NegInf else PosInf)"
| "js_mul PosInf PosInf = PosInf"
| "js_mul PosInf NegInf = NegInf"
| "js_mul NegInf PosInf = NegInf"
| "js_mul NegInf NegInf = PosInf"

fun js_div :: "jsnum \<Rightarrow> jsnum \<Rightarrow> jsnum" where
  "js_div (Num a) (Num b) =
     (if b = 0 then (if a = 0 then NaN else if 0 < a then PosInf else NegInf)
      else Num (a / b))"
| "js_div NaN _ = NaN"
| "js_div _ NaN = NaN"
| "js_div (Num a) PosInf = Num 0"
| "js_div (Num a) NegInf = Num 0"
| "js_div PosInf (Num b) = (if 0 \<le> b then PosInf else NegInf)"
| "js_div NegInf (Num b) = (if 0 \<le> b then NegInf else PosInf)"
| "js_div PosInf PosInf = NaN"
| "js_div PosInf NegInf = NaN"
| "js_div NegInf PosInf = NaN"
| "js_div NegInf NegInf = NaN"

text \<open>\<^verbatim>\<open>Math.sqrt\<close>, and \<^verbatim>\<open>Math.pow(v, 2)\<close>, the only power the program takes.\<close>

fun js_sqrt :: "jsnum \<Rightarrow> jsnum" where
  "js_sqrt (Num a) = (if 0 \<le> a then Num (sqrt a) else NaN)"
| "js_sqrt PosInf = PosInf"
| "js_sqrt NegInf = NaN"
| "js_sqrt NaN = NaN"

fun js_pow2 :: "jsnum \<Rightarrow> jsnum" where
  "js_pow2 (Num a) = Num (a\<^sup>2)"
| "js_pow2 PosInf = PosInf"
| "js_pow2 NegInf = PosInf"
| "js_pow2 NaN = NaN"

text \<open>The comparisons \<^verbatim>\<open><\<close> and \<^verbatim>\<open>>\<close>: false as soon as one side is \<open>NaN\<close>.\<close>

fun js_lt :: "jsnum \<Rightarrow> jsnum \<Rightarrow> bool" where
  "js_lt (Num a) (Num b) = (a < b)"
| "js_lt NaN _ = False"
| "js_lt _ NaN = False"
| "js_lt _ NegInf = False"
| "js_lt PosInf _ = False"
| "js_lt NegInf _ = True"
| "js_lt _ PosInf = True"

definition js_gt :: "jsnum \<Rightarrow> jsnum \<Rightarrow> bool" where
  "js_gt a b = js_lt b a"

text \<open>\<^verbatim>\<open>Math.max\<close> and \<^verbatim>\<open>Math.min\<close> of two arguments: \<open>NaN\<close> if either is.\<close>

fun js_max :: "jsnum \<Rightarrow> jsnum \<Rightarrow> jsnum" where
  "js_max NaN _ = NaN"
| "js_max _ NaN = NaN"
| "js_max a b = (if js_lt a b then b else a)"

fun js_min :: "jsnum \<Rightarrow> jsnum \<Rightarrow> jsnum" where
  "js_min NaN _ = NaN"
| "js_min _ NaN = NaN"
| "js_min a b = (if js_lt b a then b else a)"

text \<open>The strict equality \<^verbatim>\<open>===\<close> of two numbers: \<open>NaN\<close> equals nothing.\<close>

fun js_eq :: "jsnum \<Rightarrow> jsnum \<Rightarrow> bool" where
  "js_eq (Num a) (Num b) = (a = b)"
| "js_eq PosInf PosInf = True"
| "js_eq NegInf NegInf = True"
| "js_eq _ _ = False"

fun js_sin :: "jsnum \<Rightarrow> jsnum" where
  "js_sin (Num a) = Num (sin a)"
| "js_sin _ = NaN"

fun js_cos :: "jsnum \<Rightarrow> jsnum" where
  "js_cos (Num a) = Num (cos a)"
| "js_cos _ = NaN"

fun js_cbrt :: "jsnum \<Rightarrow> jsnum" where
  "js_cbrt (Num a) = Num (root 3 a)"
| "js_cbrt v = v"

fun js_acos :: "jsnum \<Rightarrow> jsnum" where
  "js_acos (Num a) = (if - 1 \<le> a \<and> a \<le> 1 then Num (arccos a) else NaN)"
| "js_acos _ = NaN"

fun js_rem :: "jsnum \<Rightarrow> jsnum \<Rightarrow> jsnum" where
  "js_rem (Num a) (Num b) =
     (if b = 0 then NaN
      else Num (a - b * of_int (if 0 \<le> a / b then \<lfloor>a / b\<rfloor> else \<lceil>a / b\<rceil>)))"
| "js_rem (Num a) PosInf = Num a"
| "js_rem (Num a) NegInf = Num a"
| "js_rem _ _ = NaN"

text \<open>
  An indexed read \<^verbatim>\<open>a[i]\<close> of a JavaScript array: \<open>None\<close> stands for \<^verbatim>\<open>undefined\<close>, the
  value of a read past the end.
\<close>

definition js_index :: "'a list \<Rightarrow> nat \<Rightarrow> 'a option" where
  "js_index a i = (if i < length a then Some (a ! i) else None)"


section \<open>Gesture classifier (src/utils/gestureLogic.ts, src/types.ts)\<close>

datatype GestureType =
  NONE | OPEN_HAND | CLOSED_FIST | VICTORY | PINCH | THUMBS_UP | ROCK_ON | DOUBLE_PALM

record HandLandmark =
  lm_x :: jsnum
  lm_y :: jsnum
  lm_z :: jsnum

record GestureResult =
  gtype :: GestureType
  strength :: jsnum

text \<open>
  A function that reads a property of \<^verbatim>\<open>undefined\<close> throws a \<^verbatim>\<open>TypeError\<close>; the functions
  below return \<open>None\<close> for that exception and \<open>Some\<close> of their result otherwise. The
  coordinates of a landmark are any numbers, the special values included. The argument
  of \<^verbatim>\<open>detectGesture\<close> is an array (of any length), so that the test \<^verbatim>\<open>!landmarks\<close> for a
  missing array is always false and only the test of the length remains.
\<close>

definition distance :: "HandLandmark option \<Rightarrow> HandLandmark option \<Rightarrow> jsnum option" where
  "distance p1 p2 =
     (case p1 of
        None \<Rightarrow> None
      | Some a \<Rightarrow>
          (case p2 of
             None \<Rightarrow> None
           | Some b \<Rightarrow>
               Some (js_sqrt
                 (js_add
                   (js_add (js_pow2 (js_sub (lm_x a) (lm_x b)))
                           (js_pow2 (js_sub (lm_y a) (lm_y b))))
                   (js_pow2 (js_sub (lm_z a) (lm_z b)))))))"

definition isFingerExtended :: "HandLandmark list \<Rightarrow> nat \<Rightarrow> nat \<Rightarrow> bool option" where
  "isFingerExtended landmarks tipIdx pipIdx =
     (let wrist = js_index landmarks 0;
          tip = js_index landmarks tipIdx;
          pip = js_index landmarks pipIdx
      in do {
        dTip \<leftarrow> distance wrist tip;
        dPip \<leftarrow> distance wrist pip;
        Some (js_gt dTip dPip)
      })"

definition detectGesture :: "HandLandmark list \<Rightarrow> GestureResult option" where
  "detectGesture landmarks =
     (if length landmarks < 21 then Some \<lparr>gtype = NONE, strength = Num 0\<rparr>
      else do {
        let thumbTip = js_index landmarks 4;
        let indexTip = js_index landmarks 8;
        pinchDist \<leftarrow> distance thumbTip indexTip;
        if js_lt pinchDist (Num 0.05)
        then Some \<lparr>gtype = PINCH,
                   strength = js_max (Num 0) (js_sub (Num 1) (js_mul pinchDist (Num 20)))\<rparr>
        else do {
          thumbExt \<leftarrow> isFingerExtended landmarks 4 2;
          indexExt \<leftarrow> isFingerExtended landmarks 8 6;
          middleExt \<leftarrow> isFingerExtended landmarks 12 10;
          ringExt \<leftarrow> isFingerExtended landmarks 16 14;
          pinkyExt \<leftarrow> isFingerExtended landmarks 20 18;
          let extendedCount =
            length (filter (\<lambda>b. b) [thumbExt, indexExt, middleExt, ringExt, pinkyExt]);
          if extendedCount = 0 then Some \<lparr>gtype = CLOSED_FIST, strength = Num 1\<rparr>
          else if indexExt \<and> pinkyExt \<and> \<not> middleExt \<and> \<not> ringExt
          then Some \<lparr>gtype = ROCK_ON, strength = Num 1\<rparr>
          else if indexExt \<and> middleExt \<and> \<not> ringExt \<and> \<not> pinkyExt
          then Some \<lparr>gtype = VICTORY, strength = Num 1\<rparr>
          else if thumbExt \<and> \<not> indexExt \<and> \<not> middleExt \<and> \<not> ringExt \<and> \<not> pinkyExt
          then Some \<lparr>gtype = THUMBS_UP, strength = Num 1\<rparr>
          else if extendedCount \<ge> 4 then Some \<lparr>gtype = OPEN_HAND, strength = Num 1\<rparr>
          else Some \<lparr>gtype = NONE, strength = Num 0\<rparr>
        }
      })"


section \<open>The particle scene (src/components/HandParticlesScene.tsx)\<close>

subsection \<open>Typed arrays, constants and vectors\<close>

text \<open>
  A \<^verbatim>\<open>Float32Array\<close> is a list of numbers. A read past the end gives \<^verbatim>\<open>undefined\<close>, which
  is \<open>NaN\<close> in the arithmetic and false in the comparisons where the program uses it; a
  write past the end is ignored, which is what \<open>xs[i := v]\<close> does.
\<close>

definition f32_get :: "jsnum list \<Rightarrow> nat \<Rightarrow> jsnum" where
  "f32_get a i = (if i < length a then a ! i else NaN)"

definition PARTICLE_COUNT :: nat where
  "PARTICLE_COUNT = 25000"

definition BOUNDS :: jsnum where
  "BOUNDS = Num 80"

record Vector3 =
  v3_x :: jsnum
  v3_y :: jsnum
  v3_z :: jsnum

text \<open>
  \<^verbatim>\<open>Vector3.lerp\<close> and \<^verbatim>\<open>Color.lerp\<close> belong to the three.js library, whose source is not
  part of the repository; they are modelled after the library's documentation: each
  component moves from its value towards the target's by the fraction \<open>alpha\<close>.
\<close>

definition lerp :: "Vector3 \<Rightarrow> Vector3 \<Rightarrow> jsnum \<Rightarrow> Vector3" where
  "lerp self v alpha =
     \<lparr>v3_x = js_add (v3_x self) (js_mul (js_sub (v3_x v) (v3_x self)) alpha),
      v3_y = js_add (v3_y self) (js_mul (js_sub (v3_y v) (v3_y self)) alpha),
      v3_z = js_add (v3_z self) (js_mul (js_sub (v3_z v) (v3_z self)) alpha)\<rparr>"

type_synonym triple = "jsnum \<times> jsnum \<times> jsnum"

definition lerpColor :: "triple \<Rightarrow> triple \<Rightarrow> jsnum \<Rightarrow> triple" where
  "lerpColor c1 c2 alpha =
     (case c1 of (r1, g1, b1) \<Rightarrow>
      case c2 of (r2, g2, b2) \<Rightarrow>
        (js_add r1 (js_mul (js_sub r2 r1) alpha),
         js_add g1 (js_mul (js_sub g2 g1) alpha),
         js_add b1 (js_mul (js_sub b2 b1) alpha)))"

text \<open>
  \<^verbatim>\<open>Color.setHSL\<close>, also of three.js, is a parameter \<open>setHSL\<close> of the model: a function from
  hue, saturation and lightness to the red, green and blue components.
\<close>

type_synonym hslFun = "jsnum \<Rightarrow> jsnum \<Rightarrow> jsnum \<Rightarrow> triple"

subsection \<open>State\<close>

text \<open>
  The four particle arrays are allocated together by \<^verbatim>\<open>initThree\<close> and are \<^verbatim>\<open>null\<close> before:
  \<open>bufs\<close> is \<open>None\<close> until then. They are four distinct arrays; particle \<open>i\<close> owns the
  entries \<open>3 i\<close>, \<open>3 i + 1\<close> and \<open>3 i + 2\<close> of each.
\<close>

record buffers =
  positions :: "jsnum list"
  velocities :: "jsnum list"
  homePositions :: "jsnum list"
  colors :: "jsnum list"

text \<open>
  The state the callbacks share: \<^verbatim>\<open>sceneState\<close>, with \<^verbatim>\<open>loopState.lastTime\<close> and a flag
  \<open>rendererReady\<close> that says that the renderer, composer and camera of \<^verbatim>\<open>threeRef\<close> are set.
  The field \<^verbatim>\<open>handVelocity\<close> is never read or written and is left out; so are the frame
  counter and the camera, which read the state below and write none of it.
\<close>

record sceneState =
  rendererReady :: bool
  lastTime :: jsnum
  bufs :: "buffers option"
  handPosition :: Vector3
  isHandPresent :: bool
  gesture :: GestureType
  gestureStrength :: jsnum
  time :: jsnum
  doublePalmTimer :: jsnum
  isStreamReady :: bool

subsection \<open>The physics loop of \<^verbatim>\<open>animate\<close> (lines 72 to 266)\<close>

text \<open>
  \<^verbatim>\<open>animate\<close> copies the interaction fields of the state into local constants before the
  loop over the particles; \<open>tickLocals\<close> holds these constants (\<^verbatim>\<open>mouse\<close> is the hand
  position).
\<close>

record tickLocals =
  tl_mouse :: Vector3
  tl_isHandPresent :: bool
  tl_gesture :: GestureType
  tl_gestureStrength :: jsnum
  tl_time :: jsnum

definition tickLocalsOf :: "sceneState \<Rightarrow> tickLocals" where
  "tickLocalsOf s =
     \<lparr>tl_mouse = handPosition s, tl_isHandPresent = isHandPresent s, tl_gesture = gesture s,
      tl_gestureStrength = gestureStrength s, tl_time = time s\<rparr>"

text \<open>
  The gesture force (lines 137 to 207) on the velocity \<open>(vx, vy, vz)\<close> of particle \<open>i\<close> at
  position \<open>(px, py, pz)\<close>, at offset \<open>(dx, dy, dz)\<close> and distance \<open>dist'\<close> of the hand.
  \<^verbatim>\<open>Math.random()\<close> is the sequence \<open>rnd\<close> of the frame's random numbers; \<open>k\<close> counts the
  numbers drawn so far, and the function returns the new count with the velocity.
  The variable \<^verbatim>\<open>dist\<close> of the source is written \<open>dist'\<close>, since \<open>dist\<close> is a constant of
  HOL.
\<close>

fun handForce ::
  "tickLocals \<Rightarrow> jsnum \<Rightarrow> (nat \<Rightarrow> real) \<Rightarrow> nat \<Rightarrow> nat \<Rightarrow> triple \<Rightarrow> triple \<Rightarrow> jsnum \<Rightarrow> triple
     \<Rightarrow> triple \<times> nat" where
  "handForce e dt rnd k i (px, py, pz) (dx, dy, dz) dist' (vx, vy, vz) =
     (let mouse = tl_mouse e in
      if tl_gesture e = OPEN_HAND then
        (if js_lt dist' (Num 40) then
           (let force = js_mul (js_sub (Num 40) dist') (Num 1.5);
                vx = js_add vx (js_mul (js_mul (js_mul (js_neg dy) force) (Num 0.5)) dt);
                vy = js_add vy (js_mul (js_mul (js_mul dx force) (Num 0.5)) dt);
                vz = js_add vz
                       (js_mul (js_mul (js_sin (js_add (js_mul (tl_time e) (Num 5)) (Num (real i))))
                                       force) dt);
                vx = js_sub vx (js_mul (js_mul dx (Num 2.0)) dt);
                vy = js_sub vy (js_mul (js_mul dy (Num 2.0)) dt);
                vz = js_sub vz (js_mul (js_mul dz (Num 2.0)) dt)
            in ((vx, vy, vz), k))
         else ((vx, vy, vz), k))
      else if tl_gesture e = CLOSED_FIST then
        (if js_lt dist' (Num 50) then
           (let force = js_mul (js_sub (Num 50) dist') (Num 20.0);
                dirX = js_div dx dist';
                dirY = js_div dy dist';
                dirZ = js_div dz dist';
                vx = js_add vx (js_mul (js_mul dirX force) dt);
                vy = js_add vy (js_mul (js_mul dirY force) dt);
                vz = js_add vz (js_mul (js_mul dirZ force) dt)
            in ((vx, vy, vz), k))
         else ((vx, vy, vz), k))
      else if tl_gesture e = PINCH then
        (if js_lt dist' (Num 60) then
           (let strength = js_mul (Num 150) (tl_gestureStrength e);
                vx = js_sub vx (js_mul (js_mul dx strength) dt);
                vy = js_sub vy (js_mul (js_mul dy strength) dt);
                vz = js_sub vz (js_mul (js_mul dz strength) dt)
            in ((vx, vy, vz), k))
         else ((vx, vy, vz), k))
      else if tl_gesture e = VICTORY then
        (if js_lt dist' (Num 40) then
           (let vy = js_add vy
                       (js_mul (js_mul (js_sin (js_add (js_mul px (Num 0.2))
                                                       (js_mul (tl_time e) (Num 10))))
                                       (Num 20)) dt)
            in ((vx, vy, vz), k))
         else ((vx, vy, vz), k))
      else if tl_gesture e = THUMBS_UP then
        (if js_lt dist' (Num 40) then
           (let tx = js_mul (js_sin (js_add (js_mul (tl_time e) (Num 3))
                                            (js_mul (Num (real i)) (Num 0.1)))) (Num 20);
                ty = js_mul (js_cos (js_add (js_mul (tl_time e) (Num 3))
                                            (js_mul (Num (real i)) (Num 0.1)))) (Num 20);
                vx = js_add vx (js_mul (js_mul (js_sub (js_add (v3_x mouse) tx) px) (Num 5)) dt);
                vy = js_add vy (js_mul (js_mul (js_sub (js_add (v3_y mouse) ty) py) (Num 5)) dt)
            in ((vx, vy, vz), k))
         else ((vx, vy, vz), k))
      else if tl_gesture e = ROCK_ON then
        (if js_lt dist' (Num 60) then
           (let vx = js_add vx (js_mul (js_mul (js_sub (Num (rnd k)) (Num 0.5)) (Num 200)) dt);
                vy = js_add vy
                       (js_mul (js_mul (js_sub (Num (rnd (k + 1))) (Num 0.5)) (Num 200)) dt);
                vz = js_add vz
                       (js_mul (js_mul (js_sub (Num (rnd (k + 2))) (Num 0.5)) (Num 200)) dt)
            in ((vx, vy, vz), k + 3))
         else ((vx, vy, vz), k))
      else
        (if js_lt dist' (Num 15) then
           (let force = js_mul (js_sub (Num 15) dist') (Num 10);
                vx = js_add vx (js_mul (js_mul (js_div dx dist') force) dt);
                vy = js_add vy (js_mul (js_mul (js_div dy dist') force) dt);
                vz = js_add vz (js_mul (js_mul (js_div dz dist') force) dt)
            in ((vx, vy, vz), k))
         else ((vx, vy, vz), k)))"

text \<open>The colour update (lines 210 to 230); it draws one random number in its last branch.\<close>

definition colorUpdate ::
  "tickLocals \<Rightarrow> hslFun \<Rightarrow> (nat \<Rightarrow> real) \<Rightarrow> nat \<Rightarrow> nat \<Rightarrow> jsnum \<Rightarrow> jsnum
     \<Rightarrow> jsnum list \<Rightarrow> jsnum list \<Rightarrow> jsnum list \<times> nat" where
  "colorUpdate e setHSL rnd k i3 px dist' homePos cols =
     (if tl_gesture e = VICTORY then
        (let hue = js_rem (js_add (js_mul (tl_time e) (Num 0.2)) (js_mul px (Num 0.01))) (Num 1)
         in case setHSL hue (Num 0.8) (Num 0.6) of
              (r, g, b) \<Rightarrow> (cols[i3 := r, i3 + 1 := g, i3 + 2 := b], k))
      else if tl_gesture e = PINCH then
        (let intensity = js_min (Num 1) (js_div (Num 40) (js_add dist' (Num 1)))
         in (cols[i3 := Num 1.0, i3 + 1 := js_sub (Num 1.0) intensity,
                  i3 + 2 := js_sub (Num 1.0) intensity], k))
      else
        (if js_lt (Num (rnd k)) (Num 0.05)
         then (cols[i3 := (if js_gt (f32_get homePos i3) (Num 0) then Num 0 else Num 1),
                    i3 + 1 := Num 0.8, i3 + 2 := Num 1], k + 1)
         else (cols, k + 1)))"

text \<open>
  The forces on particle \<open>i\<close> (lines 106 to 231): the pull towards the home position, and
  with a hand present the gesture force and the colour update. The result is the
  velocity before friction, the colour array and the count of random numbers drawn.
\<close>

definition particleForces ::
  "tickLocals \<Rightarrow> jsnum \<Rightarrow> hslFun \<Rightarrow> (nat \<Rightarrow> real) \<Rightarrow> nat \<Rightarrow> buffers \<times> nat
     \<Rightarrow> triple \<times> jsnum list \<times> nat" where
  "particleForces e dt setHSL rnd i bk =
     (case bk of (b, k) \<Rightarrow>
      (let i3 = i * 3;
           px = f32_get (positions b) i3;
           py = f32_get (positions b) (i3 + 1);
           pz = f32_get (positions b) (i3 + 2);
           vx = f32_get (velocities b) i3;
           vy = f32_get (velocities b) (i3 + 1);
           vz = f32_get (velocities b) (i3 + 2);
           hx = f32_get (homePositions b) i3;
           hy = f32_get (homePositions b) (i3 + 1);
           hz = f32_get (homePositions b) (i3 + 2);
           distHomeX = js_sub hx px;
           distHomeY = js_sub hy py;
           distHomeZ = js_sub hz pz;
           vx = js_add vx (js_mul (js_mul distHomeX (Num 1.5)) dt);
           vy = js_add vy (js_mul (js_mul distHomeY (Num 1.5)) dt);
           vz = js_add vz (js_mul (js_mul distHomeZ (Num 1.5)) dt)
       in if tl_isHandPresent e then
            (let mouse = tl_mouse e;
                 dx = js_sub px (v3_x mouse);
                 dy = js_sub py (v3_y mouse);
                 dz = js_sub pz (v3_z mouse);
                 distSq = js_add (js_add (js_mul dx dx) (js_mul dy dy)) (js_mul dz dz);
                 dist' = js_sqrt distSq
             in case handForce e dt rnd k i (px, py, pz) (dx, dy, dz) dist' (vx, vy, vz) of
                  (v, k1) \<Rightarrow>
                    (case colorUpdate e setHSL rnd k1 i3 px dist' (homePositions b) (colors b) of
                       (cols, k2) \<Rightarrow> (v, cols, k2)))
          else ((vx, vy, vz), colors b, k)))"

text \<open>One pass of the loop body: the forces, then friction and integration (lines 233 to 244).\<close>

definition particleStep ::
  "tickLocals \<Rightarrow> jsnum \<Rightarrow> hslFun \<Rightarrow> (nat \<Rightarrow> real) \<Rightarrow> nat \<Rightarrow> buffers \<times> nat
     \<Rightarrow> buffers \<times> nat" where
  "particleStep e dt setHSL rnd i bk =
     (case particleForces e dt setHSL rnd i bk of
        ((vx, vy, vz), cols, k) \<Rightarrow>
          (let b = fst bk;
               i3 = i * 3;
               vx = js_mul vx (Num 0.92);
               vy = js_mul vy (Num 0.92);
               vz = js_mul vz (Num 0.92);
               pos = (positions b)
                       [i3 := js_add (f32_get (positions b) i3) (js_mul vx dt),
                        i3 + 1 := js_add (f32_get (positions b) (i3 + 1)) (js_mul vy dt),
                        i3 + 2 := js_add (f32_get (positions b) (i3 + 2)) (js_mul vz dt)];
               vel = (velocities b)[i3 := vx, i3 + 1 := vy, i3 + 2 := vz]
           in (b\<lparr>positions := pos, velocities := vel, colors := cols\<rparr>, k)))"

text \<open>
  \<^verbatim>\<open>animate\<close> at the clock reading \<open>now\<close>. It returns at once while the renderer is not
  set, and after the update of the clocks while the arrays are not allocated.
\<close>

definition animate ::
  "hslFun \<Rightarrow> jsnum \<Rightarrow> (nat \<Rightarrow> real) \<Rightarrow> sceneState \<Rightarrow> sceneState" where
  "animate setHSL now rnd s =
     (if \<not> rendererReady s then s
      else
        (let dt = js_min (js_div (js_sub now (lastTime s)) (Num 1000)) (Num 0.1);
             s1 = s\<lparr>lastTime := now, time := js_add (time s) dt\<rparr>
         in case bufs s1 of
              None \<Rightarrow> s1
            | Some b \<Rightarrow>
                s1\<lparr>bufs := Some (fst (fold (particleStep (tickLocalsOf s1) dt setHSL rnd)
                                            [0..<PARTICLE_COUNT] (b, 0)))\<rparr>))"

subsection \<open>\<^verbatim>\<open>predict\<close> (lines 268 to 336)\<close>

datatype FullscreenCall = RequestFullscreen | ExitFullscreen

text \<open>
  The body of the \<^verbatim>\<open>try\<close> block for the hands the landmarker found. An exception leaves
  the block with the state as it is at that point: \<^verbatim>\<open>landmarks[9].x\<close> throws when the first
  hand has fewer than 10 joints. \<open>now\<close> is the clock reading of the double-palm check,
  \<open>fullscreenElement\<close> says whether the document is in full screen, and the second
  component of the result is the full-screen call made, if any.
\<close>

definition predictHands ::
  "HandLandmark list list \<Rightarrow> jsnum \<Rightarrow> bool \<Rightarrow> sceneState \<Rightarrow> sceneState \<times> FullscreenCall option" where
  "predictHands hands now fullscreenElement s =
     (if length hands > 0 then
        (let s1 = s\<lparr>isHandPresent := True\<rparr>;
             landmarks = hands ! 0
         in case js_index landmarks 9 of
              None \<Rightarrow> (s1, None)
            | Some l9 \<Rightarrow>
                (let x = js_mul (js_mul (js_sub (Num 0.5) (lm_x l9)) BOUNDS) (Num 2.5);
                     y = js_mul (js_mul (js_sub (Num 0.5) (lm_y l9)) BOUNDS) (Num 2.5);
                     z = js_mul (js_mul (js_neg (lm_z l9)) BOUNDS) (Num 2);
                     targetPos = \<lparr>v3_x = x, v3_y = y, v3_z = z\<rparr>;
                     s2 = s1\<lparr>handPosition := lerp (handPosition s1) targetPos (Num 0.2)\<rparr>
                 in case detectGesture landmarks of
                      None \<Rightarrow> (s2, None)
                    | Some r \<Rightarrow>
                        (let s3 = s2\<lparr>gesture := gtype r, gestureStrength := strength r\<rparr>
                         in if length hands = 2 then
                              (case detectGesture (hands ! 0) of
                                 None \<Rightarrow> (s3, None)
                               | Some g1 \<Rightarrow>
                                   (case detectGesture (hands ! 1) of
                                      None \<Rightarrow> (s3, None)
                                    | Some g2 \<Rightarrow>
                                        (if gtype g1 = OPEN_HAND \<and> gtype g2 = OPEN_HAND then
                                           (if js_lt (js_sub now (doublePalmTimer s3)) (Num 1000)
                                               \<and> js_gt (doublePalmTimer s3) (Num 0)
                                            then (s3\<lparr>doublePalmTimer := Num 0\<rparr>,
                                                  Some (if \<not> fullscreenElement
                                                        then RequestFullscreen else ExitFullscreen))
                                            else if js_eq (doublePalmTimer s3) (Num 0)
                                            then (s3\<lparr>doublePalmTimer := now\<rparr>, None)
                                            else (s3, None))
                                         else
                                           (if js_gt (js_sub now (doublePalmTimer s3)) (Num 1000)
                                            then (s3\<lparr>doublePalmTimer := Num 0\<rparr>, None)
                                            else (s3, None)))))
                            else (s3, None))))
      else (s\<lparr>isHandPresent := False, gesture := NONE\<rparr>, None))"

text \<open>
  The inputs of one frame: whether the video and the landmarker are ready, the result of
  \<^verbatim>\<open>detectForVideo\<close> (\<open>None\<close> when it throws, the list of hands otherwise), the clock
  readings, the full-screen state and the random numbers of the frame.
\<close>

record frameInput =
  videoReady :: bool
  detection :: "HandLandmark list list option"
  nowPredict :: jsnum
  fullscreenElement :: bool
  nowAnimate :: jsnum
  randomValues :: "nat \<Rightarrow> real"

text \<open>
  The outputs: the full-screen call, and the gesture passed to \<^verbatim>\<open>onGestureChange\<close>, which
  is called only when the video is ready.
\<close>

record frameOutput =
  fullscreenCall :: "FullscreenCall option"
  reportedGesture :: "GestureType option"

definition predict ::
  "hslFun \<Rightarrow> frameInput \<Rightarrow> sceneState \<Rightarrow> sceneState \<times> frameOutput" where
  "predict setHSL f s =
     (case (if videoReady f \<and> isStreamReady s then
              (case (case detection f of
                       None \<Rightarrow> (s, None)
                     | Some hands \<Rightarrow> predictHands hands (nowPredict f) (fullscreenElement f) s) of
                 (s', call) \<Rightarrow>
                   (s', \<lparr>fullscreenCall = call, reportedGesture = Some (gesture s')\<rparr>))
            else (s, \<lparr>fullscreenCall = None, reportedGesture = None\<rparr>)) of
        (s', out) \<Rightarrow> (animate setHSL (nowAnimate f) (randomValues f) s', out))"

text \<open>A run of the frame loop over the inputs of successive frames.\<close>

fun run :: "hslFun \<Rightarrow> frameInput list \<Rightarrow> sceneState \<Rightarrow> sceneState" where
  "run setHSL [] s = s"
| "run setHSL (f # fs) s = run setHSL fs (fst (predict setHSL f s))"

text \<open>
  A sequence of ticks in which the interaction state of each tick is arbitrary: before
  each call of \<^verbatim>\<open>animate\<close> the hand position, the hand presence, the gesture category and
  the strength are set to the values of the tick, as \<^verbatim>\<open>predict\<close> may set them, and the call
  reads the clock and the random numbers of the tick.
\<close>

record tickInput =
  tickHandPosition :: Vector3
  tickHandPresent :: bool
  tickGesture :: GestureType
  tickStrength :: jsnum
  tickNow :: jsnum
  tickRandom :: "nat \<Rightarrow> real"

fun ticks :: "hslFun \<Rightarrow> tickInput list \<Rightarrow> sceneState \<Rightarrow> sceneState" where
  "ticks setHSL [] s = s"
| "ticks setHSL (t # ts) s =
     ticks setHSL ts
       (animate setHSL (tickNow t) (tickRandom t)
          (s\<lparr>handPosition := tickHandPosition t, isHandPresent := tickHandPresent t,
             gesture := tickGesture t, gestureStrength := tickStrength t\<rparr>))"

subsection \<open>\<^verbatim>\<open>initThree\<close> (lines 338 to 429)\<close>

text \<open>
  The initial distribution of particle \<open>i\<close>, which draws four random numbers, and
  \<^verbatim>\<open>initThree\<close>, which does nothing without a container or when the renderer is set.
\<close>

definition initParticle :: "(nat \<Rightarrow> real) \<Rightarrow> nat \<Rightarrow> buffers \<Rightarrow> buffers" where
  "initParticle rnd i b =
     (let i3 = i * 3;
          r = js_mul BOUNDS (js_cbrt (Num (rnd (4 * i))));
          theta = js_mul (js_mul (Num (rnd (4 * i + 1))) (Num 2)) (Num pi);
          phi = js_acos (js_sub (js_mul (Num 2) (Num (rnd (4 * i + 2)))) (Num 1));
          x = js_mul (js_mul r (js_sin phi)) (js_cos theta);
          y = js_mul (js_mul r (js_sin phi)) (js_sin theta);
          z = js_mul r (js_cos phi);
          alpha = Num (rnd (4 * i + 3));
          mixedColor = lerpColor (Num 0, Num 1, Num 1) (Num 1, Num 0, Num 1) alpha
      in \<lparr>positions = (positions b)[i3 := x, i3 + 1 := y, i3 + 2 := z],
          velocities = (velocities b)[i3 := Num 0, i3 + 1 := Num 0, i3 + 2 := Num 0],
          homePositions = (homePositions b)[i3 := x, i3 + 1 := y, i3 + 2 := z],
          colors = (colors b)[i3 := fst mixedColor, i3 + 1 := fst (snd mixedColor),
                              i3 + 2 := snd (snd mixedColor)]\<rparr>)"

definition initThree :: "bool \<Rightarrow> (nat \<Rightarrow> real) \<Rightarrow> sceneState \<Rightarrow> sceneState" where
  "initThree container rnd s =
     (if \<not> container then s
      else if rendererReady s then s
      else
        (let zeros = replicate (PARTICLE_COUNT * 3) (Num 0);
             b0 = \<lparr>positions = zeros, velocities = zeros, homePositions = zeros, colors = zeros\<rparr>
         in s\<lparr>rendererReady := True,
               bufs := Some (fold (initParticle rnd) [0..<PARTICLE_COUNT] b0)\<rparr>))"


section \<open>The decision procedure as the specification words it\<close>

text \<open>
  The specification describes the classifier as an ordered list of rules of which the
  first one that matches wins. \<open>decision_rules\<close> is that list, in the order of the
  specification, over the pinch distance and the five extension flags; \<open>first_match\<close>
  picks the result of the first rule whose condition holds. \<open>clamp\<close> is the clamp of a
  value to an interval that the specification uses for the pinch strength.
\<close>

definition first_match :: "(bool \<times> 'a) list \<Rightarrow> 'a option" where
  "first_match rules = map_option snd (find fst rules)"

definition decision_rules ::
  "jsnum \<Rightarrow> bool \<Rightarrow> bool \<Rightarrow> bool \<Rightarrow> bool \<Rightarrow> bool \<Rightarrow> (bool \<times> GestureResult) list" where
  "decision_rules d thumb index middle ring pinky =
     (let extendedCount = length (filter (\<lambda>b. b) [thumb, index, middle, ring, pinky]) in
      [(js_lt d (Num 0.05),
          \<lparr>gtype = PINCH, strength = js_max (Num 0) (js_sub (Num 1) (js_mul d (Num 20)))\<rparr>),
       (extendedCount = 0, \<lparr>gtype = CLOSED_FIST, strength = Num 1\<rparr>),
       (index \<and> pinky \<and> \<not> middle \<and> \<not> ring, \<lparr>gtype = ROCK_ON, strength = Num 1\<rparr>),
       (index \<and> middle \<and> \<not> ring \<and> \<not> pinky, \<lparr>gtype = VICTORY, strength = Num 1\<rparr>),
       (thumb \<and> \<not> index \<and> \<not> middle \<and> \<not> ring \<and> \<not> pinky,
          \<lparr>gtype = THUMBS_UP, strength = Num 1\<rparr>),
       (extendedCount \<ge> 4, \<lparr>gtype = OPEN_HAND, strength = Num 1\<rparr>),
       (True, \<lparr>gtype = NONE, strength = Num 0\<rparr>)])"

definition clamp :: "jsnum \<Rightarrow> jsnum \<Rightarrow> jsnum \<Rightarrow> jsnum" where
  "clamp v lo hi = js_min (js_max v lo) hi"

text \<open>The distance of joint \<open>i\<close> to the wrist, joint 0.\<close>

abbreviation wrist_to :: "HandLandmark list \<Rightarrow> nat \<Rightarrow> jsnum option" where
  "wrist_to lms i \<equiv> distance (js_index lms 0) (js_index lms i)"

section \<open>Concrete hand poses\<close>

definition landmark :: "real \<Rightarrow> real \<Rightarrow> real \<Rightarrow> HandLandmark" where
  "landmark a b c = \<lparr>lm_x = Num a, lm_y = Num b, lm_z = Num c\<rparr>"

text \<open>
  Joints 4, 8, 12, 16 and 20 are the five fingertips. In \<open>pinch_open_pose\<close> the fingertips
  share one point at distance 1 of the wrist and every other joint lies on the wrist: the
  thumb and index tips touch while all five digits count as extended.
\<close>

definition pinch_open_pose :: "HandLandmark list" where
  "pinch_open_pose =
     (let w = landmark 0 0 0; t = landmark 1 0 0 in
      [w, w, w, w, t, w, w, w, t, w, w, w, t, w, w, w, t, w, w, w, t])"

text \<open>
  In \<open>fist_pose\<close> every fingertip is at distance 1 of the wrist and every other joint at
  distance 2: all five digits are curled; the thumb tip is at distance 2 of the index tip.
\<close>

definition fist_pose :: "HandLandmark list" where
  "fist_pose =
     (let w = landmark 0 0 0; j = landmark 2 0 0; t = landmark 1 0 0; u = landmark (- 1) 0 0 in
      [w, j, j, j, t, j, j, j, u, j, j, j, u, j, j, j, u, j, j, j, u])"

text \<open>\<open>curled_pinch_pose\<close> is the same curled hand with the five fingertips touching.\<close>

definition curled_pinch_pose :: "HandLandmark list" where
  "curled_pinch_pose =
     (let w = landmark 0 0 0; j = landmark 2 0 0; t = landmark 1 0 0 in
      [w, j, j, j, t, j, j, j, t, j, j, j, t, j, j, j, t, j, j, j, t])"

text \<open>
  In \<open>weak_pinch_pose\<close> the thumb tip is at distance 0.0499 of the index tip, in
  \<open>edge_pinch_pose\<close> at distance 0.05; every other joint lies on the wrist.
\<close>

definition weak_pinch_pose :: "HandLandmark list" where
  "weak_pinch_pose =
     (let w = landmark 0 0 0; t = landmark 0.0499 0 0 in
      [w, w, w, w, t, w, w, w, w, w, w, w, w, w, w, w, w, w, w, w, w])"

definition edge_pinch_pose :: "HandLandmark list" where
  "edge_pinch_pose =
     (let w = landmark 0 0 0; t = landmark 0.05 0 0 in
      [w, w, w, w, t, w, w, w, w, w, w, w, w, w, w, w, w, w, w, w, w])"

text \<open>\<open>open_pose\<close> is a spread hand: five extended digits, the thumb tip far from the index tip.\<close>

definition open_pose :: "HandLandmark list" where
  "open_pose =
     (let w = landmark 0 0 0; t = landmark 1 0 0; u = landmark (- 1) 0 0 in
      [w, w, w, w, t, w, w, w, u, w, w, w, u, w, w, w, u, w, w, w, u])"

section \<open>The per-tick update as the specification words it\<close>

text \<open>
  The specification gives the update of a particle without a hand as
  \<open>v' = 0.92 * (v + (h - p) * 1.5 * dt)\<close> and \<open>p' = p + v' * dt\<close>, for each coordinate.
  \<open>spec_step b dt j\<close> is that pair \<open>(v', p')\<close> for entry \<open>j\<close> of the arrays \<open>b\<close>.
\<close>

definition spec_velocity :: "jsnum \<Rightarrow> jsnum \<Rightarrow> jsnum \<Rightarrow> jsnum \<Rightarrow> jsnum" where
  "spec_velocity v h p dt =
     js_mul (Num 0.92) (js_add v (js_mul (js_mul (js_sub h p) (Num 1.5)) dt))"

definition spec_position :: "jsnum \<Rightarrow> jsnum \<Rightarrow> jsnum \<Rightarrow> jsnum" where
  "spec_position p v' dt = js_add p (js_mul v' dt)"

definition spec_step :: "buffers \<Rightarrow> jsnum \<Rightarrow> nat \<Rightarrow> jsnum \<times> jsnum" where
  "spec_step b dt j =
     (let v' = spec_velocity (velocities b ! j) (homePositions b ! j) (positions b ! j) dt
      in (v', spec_position (positions b ! j) v' dt))"

text \<open>Coordinate \<open>n\<close> (0, 1 or 2) of a triple.\<close>

fun component :: "triple \<Rightarrow> nat \<Rightarrow> jsnum" where
  "component (a, b, c) n = (if n = 0 then a else if n = 1 then b else c)"

text \<open>
  \<open>same_buffers b b'\<close>: the arrays \<open>b'\<close> have the home positions of \<open>b\<close> and arrays of the
  lengths of those of \<open>b\<close>.
\<close>

definition same_buffers :: "buffers \<Rightarrow> buffers \<Rightarrow> bool" where
  "same_buffers b b' =
     (homePositions b' = homePositions b \<and>
      length (positions b') = length (positions b) \<and>
      length (velocities b') = length (velocities b) \<and>
      length (colors b') = length (colors b))"

section \<open>Concrete scene states\<close>

text \<open>
  \<open>idle_state\<close> is the state before \<^verbatim>\<open>initThree\<close>, with the video stream ready.
  \<open>still_buffers\<close> has every particle at rest at the origin, its home; in
  \<open>hand_on_particle g\<close> the hand is at the origin too, with gesture \<open>g\<close>.
  \<open>resting_buffers\<close> has every particle at rest at coordinate 1 with its home at 2, and
  \<open>resting_state\<close> is an initialised state without a hand over these arrays.
\<close>

definition idle_state :: sceneState where
  "idle_state =
     \<lparr>rendererReady = False, lastTime = Num 0, bufs = None,
      handPosition = \<lparr>v3_x = Num 0, v3_y = Num 0, v3_z = Num 0\<rparr>,
      isHandPresent = False, gesture = NONE, gestureStrength = Num 0, time = Num 0,
      doublePalmTimer = Num 0, isStreamReady = True\<rparr>"

definition still_buffers :: buffers where
  "still_buffers =
     \<lparr>positions = replicate (PARTICLE_COUNT * 3) (Num 0),
      velocities = replicate (PARTICLE_COUNT * 3) (Num 0),
      homePositions = replicate (PARTICLE_COUNT * 3) (Num 0),
      colors = replicate (PARTICLE_COUNT * 3) (Num 1)\<rparr>"

definition hand_on_particle :: "GestureType \<Rightarrow> sceneState" where
  "hand_on_particle g =
     \<lparr>rendererReady = True, lastTime = Num 0, bufs = Some still_buffers,
      handPosition = \<lparr>v3_x = Num 0, v3_y = Num 0, v3_z = Num 0\<rparr>,
      isHandPresent = True, gesture = g, gestureStrength = Num 1, time = Num 0,
      doublePalmTimer = Num 0, isStreamReady = True\<rparr>"

definition resting_buffers :: buffers where
  "resting_buffers =
     \<lparr>positions = replicate (PARTICLE_COUNT * 3) (Num 1),
      velocities = replicate (PARTICLE_COUNT * 3) (Num 0),
      homePositions = replicate (PARTICLE_COUNT * 3) (Num 2),
      colors = replicate (PARTICLE_COUNT * 3) (Num 1)\<rparr>"

definition resting_state :: sceneState where
  "resting_state =
     \<lparr>rendererReady = True, lastTime = Num 0, bufs = Some resting_buffers,
      handPosition = \<lparr>v3_x = Num 0, v3_y = Num 0, v3_z = Num 0\<rparr>,
      isHandPresent = False, gesture = NONE, gestureStrength = Num 0, time = Num 0,
      doublePalmTimer = Num 0, isStreamReady = True\<rparr>"

text \<open>
  \<open>fist_frame\<close> is a frame in which the landmarker finds the one hand \<open>fist_pose\<close>,
  500 ms after the start; \<open>plain_hsl\<close> stands in for \<^verbatim>\<open>Color.setHSL\<close> and \<open>no_random\<close> for
  \<^verbatim>\<open>Math.random\<close> where a concrete function is needed.
\<close>

definition no_random :: "nat \<Rightarrow> real" where
  "no_random k = 0"

definition plain_hsl :: hslFun where
  "plain_hsl h s l = (h, s, l)"

definition fist_frame :: frameInput where
  "fist_frame =
     \<lparr>videoReady = True, detection = Some [fist_pose], nowPredict = Num 500,
      fullscreenElement = False, nowAnimate = Num 500, randomValues = no_random\<rparr>"

text \<open>\<open>palm_tick\<close> is a tick with a hand present at the origin and the category DOUBLE_PALM.\<close>

definition palm_tick :: tickInput where
  "palm_tick =
     \<lparr>tickHandPosition = \<lparr>v3_x = Num 0, v3_y = Num 0, v3_z = Num 0\<rparr>,
      tickHandPresent = True, tickGesture = DOUBLE_PALM, tickStrength = Num 1,
      tickNow = Num 16, tickRandom = no_random\<rparr>"


section \<open>Properties of the gesture classifier\<close>

subsection \<open>Auxiliary facts\<close>

lemma js_lt_asym: "js_lt a b \<Longrightarrow> \<not> js_lt b a"
  by (cases a; cases b) auto

lemma js_sqrt_lt_Num:
  "js_lt (js_sqrt s) (Num c) \<Longrightarrow> \<exists>r. js_sqrt s = Num r \<and> 0 \<le> r \<and> r < c"
  by (cases s) (auto split: if_splits)

lemma distance_lt_Num:
  "distance p q = Some d \<Longrightarrow> js_lt d (Num c) \<Longrightarrow> \<exists>r. d = Num r \<and> 0 \<le> r \<and> r < c"
  by (auto simp: distance_def split: option.splits dest: js_sqrt_lt_Num)

lemma distance_along_x:
  "distance (Some (landmark a 0 0)) (Some (landmark b 0 0)) = Some (Num \<bar>a - b\<bar>)"
  by (simp add: distance_def landmark_def js_sub_def)

lemma clamp_unit:
  "0 \<le> r \<Longrightarrow> r < 0.05 \<Longrightarrow>
   clamp (js_sub (Num 1) (js_mul (Num r) (Num 20))) (Num 0) (Num 1) = Num (1 - r * 20)"
  by (simp add: clamp_def js_sub_def)

lemma detectGesture_pinch:
  assumes "21 \<le> length lms"
    and "distance (js_index lms 4) (js_index lms 8) = Some d"
    and "js_lt d (Num 0.05)"
  shows "detectGesture lms =
    Some \<lparr>gtype = PINCH, strength = js_max (Num 0) (js_sub (Num 1) (js_mul d (Num 20)))\<rparr>"
  using assms by (simp add: detectGesture_def)

lemma detectGesture_rest:
  assumes "21 \<le> length lms"
    and "distance (js_index lms 4) (js_index lms 8) = Some d"
    and "\<not> js_lt d (Num 0.05)"
    and "isFingerExtended lms 4 2 = Some te" and "isFingerExtended lms 8 6 = Some ie"
    and "isFingerExtended lms 12 10 = Some me" and "isFingerExtended lms 16 14 = Some re"
    and "isFingerExtended lms 20 18 = Some pe"
  shows "detectGesture lms =
    (if \<not> te \<and> \<not> ie \<and> \<not> me \<and> \<not> re \<and> \<not> pe
     then Some \<lparr>gtype = CLOSED_FIST, strength = Num 1\<rparr>
     else if ie \<and> pe \<and> \<not> me \<and> \<not> re then Some \<lparr>gtype = ROCK_ON, strength = Num 1\<rparr>
     else if ie \<and> me \<and> \<not> re \<and> \<not> pe then Some \<lparr>gtype = VICTORY, strength = Num 1\<rparr>
     else if te \<and> \<not> ie \<and> \<not> me \<and> \<not> re \<and> \<not> pe
     then Some \<lparr>gtype = THUMBS_UP, strength = Num 1\<rparr>
     else if 4 \<le> length (filter (\<lambda>b. b) [te, ie, me, re, pe])
     then Some \<lparr>gtype = OPEN_HAND, strength = Num 1\<rparr>
     else Some \<lparr>gtype = NONE, strength = Num 0\<rparr>)"
  using assms by (simp add: detectGesture_def)

lemma detectGesture_first_match:
  assumes "21 \<le> length lms"
    and "distance (js_index lms 4) (js_index lms 8) = Some d"
    and "isFingerExtended lms 4 2 = Some te" and "isFingerExtended lms 8 6 = Some ie"
    and "isFingerExtended lms 12 10 = Some me" and "isFingerExtended lms 16 14 = Some re"
    and "isFingerExtended lms 20 18 = Some pe"
  shows "detectGesture lms = first_match (decision_rules d te ie me re pe)"
proof (cases "js_lt d (Num 0.05)")
  case True
  then show ?thesis
    using detectGesture_pinch [OF assms(1,2)]
    by (simp add: first_match_def decision_rules_def)
next
  case False
  then show ?thesis
    using detectGesture_rest [OF assms(1,2) False assms(3-7)]
    by (simp add: first_match_def decision_rules_def)
qed

lemma fingers_total:
  assumes "21 \<le> length lms"
  shows "\<exists>d te ie me re pe. distance (js_index lms 4) (js_index lms 8) = Some d \<and>
    isFingerExtended lms 4 2 = Some te \<and> isFingerExtended lms 8 6 = Some ie \<and>
    isFingerExtended lms 12 10 = Some me \<and> isFingerExtended lms 16 14 = Some re \<and>
    isFingerExtended lms 20 18 = Some pe"
  using assms by (auto simp: isFingerExtended_def js_index_def distance_def)

lemma detectGesture_Some: "\<exists>r. detectGesture lms = Some r"
proof (cases "length lms < 21")
  case True
  then show ?thesis by (simp add: detectGesture_def)
next
  case False
  then have len: "21 \<le> length lms" by simp
  from fingers_total [OF len] obtain d te ie me re pe where
    h: "distance (js_index lms 4) (js_index lms 8) = Some d"
       "isFingerExtended lms 4 2 = Some te" "isFingerExtended lms 8 6 = Some ie"
       "isFingerExtended lms 12 10 = Some me" "isFingerExtended lms 16 14 = Some re"
       "isFingerExtended lms 20 18 = Some pe"
    by blast
  show ?thesis
  proof (cases "js_lt d (Num 0.05)")
    case True
    then show ?thesis using detectGesture_pinch [OF len h(1)] by simp
  next
    case False
    then show ?thesis using detectGesture_rest [OF len h(1) False h(2-6)] by simp
  qed
qed

lemma pinch_open_pose_facts:
  "length pinch_open_pose = 21"
  "distance (js_index pinch_open_pose 4) (js_index pinch_open_pose 8) = Some (Num 0)"
  "isFingerExtended pinch_open_pose 4 2 = Some True"
  "isFingerExtended pinch_open_pose 8 6 = Some True"
  "isFingerExtended pinch_open_pose 12 10 = Some True"
  "isFingerExtended pinch_open_pose 16 14 = Some True"
  "isFingerExtended pinch_open_pose 20 18 = Some True"
  by (simp_all add: pinch_open_pose_def landmark_def js_index_def distance_def
        isFingerExtended_def js_sub_def js_gt_def Let_def)

lemma fist_pose_dists:
  "length fist_pose = 21"
  "wrist_to fist_pose 4 = Some (Num 1)" "wrist_to fist_pose 2 = Some (Num 2)"
  "wrist_to fist_pose 8 = Some (Num 1)" "wrist_to fist_pose 6 = Some (Num 2)"
  "wrist_to fist_pose 12 = Some (Num 1)" "wrist_to fist_pose 10 = Some (Num 2)"
  "wrist_to fist_pose 16 = Some (Num 1)" "wrist_to fist_pose 14 = Some (Num 2)"
  "wrist_to fist_pose 20 = Some (Num 1)" "wrist_to fist_pose 18 = Some (Num 2)"
  "distance (js_index fist_pose 4) (js_index fist_pose 8) = Some (Num 2)"
  by (simp_all add: fist_pose_def Let_def js_index_def distance_along_x)

lemma detectGesture_fist_pose:
  "detectGesture fist_pose = Some \<lparr>gtype = CLOSED_FIST, strength = Num 1\<rparr>"
  by (simp add: detectGesture_def fist_pose_def landmark_def js_index_def distance_def
        isFingerExtended_def js_sub_def js_gt_def Let_def)

subsection \<open>Precedence of the pinch rule\<close>

text \<open>
  Claim C1. For every hand pose of at least 21 joints (a HandPose has exactly 21) the
  classifier computes the pinch distance and the five extension flags without an
  exception, and its result is the result of the first rule that matches in the order
  PINCH, CLOSED_FIST, ROCK_ON, VICTORY, THUMBS_UP, OPEN_HAND, NONE. In particular a pose
  whose thumb tip is at distance less than 0.05 of its index tip is classified PINCH,
  whatever the extension flags are.
\<close>

theorem pinch_precedence:
  assumes "21 \<le> length lms"
  shows "\<exists>d thumb index middle ring pinky.
           distance (js_index lms 4) (js_index lms 8) = Some d \<and>
           isFingerExtended lms 4 2 = Some thumb \<and> isFingerExtended lms 8 6 = Some index \<and>
           isFingerExtended lms 12 10 = Some middle \<and> isFingerExtended lms 16 14 = Some ring \<and>
           isFingerExtended lms 20 18 = Some pinky \<and>
           detectGesture lms = first_match (decision_rules d thumb index middle ring pinky) \<and>
           (js_lt d (Num 0.05) \<longrightarrow>
              detectGesture lms = Some \<lparr>gtype = PINCH,
                strength = js_max (Num 0) (js_sub (Num 1) (js_mul d (Num 20)))\<rparr>)"
proof -
  from fingers_total [OF assms] obtain d te ie me re pe where
    h: "distance (js_index lms 4) (js_index lms 8) = Some d"
       "isFingerExtended lms 4 2 = Some te" "isFingerExtended lms 8 6 = Some ie"
       "isFingerExtended lms 12 10 = Some me" "isFingerExtended lms 16 14 = Some re"
       "isFingerExtended lms 20 18 = Some pe"
    by blast
  have "detectGesture lms = first_match (decision_rules d te ie me re pe)"
    using detectGesture_first_match [OF assms h] .
  moreover have "js_lt d (Num 0.05) \<longrightarrow>
      detectGesture lms = Some \<lparr>gtype = PINCH,
        strength = js_max (Num 0) (js_sub (Num 1) (js_mul d (Num 20)))\<rparr>"
    using detectGesture_pinch [OF assms h(1)] by blast
  ultimately show ?thesis using h by blast
qed

text \<open>
  The theorem at \<open>pinch_open_pose\<close>: the pinch distance is 0 and all five digits are
  extended, so that the PINCH rule and the OPEN_HAND rule both match; the result is PINCH.
\<close>

theorem pinch_precedence_witness:
  "21 \<le> length pinch_open_pose \<and>
   distance (js_index pinch_open_pose 4) (js_index pinch_open_pose 8) = Some (Num 0) \<and>
   js_lt (Num 0) (Num 0.05) \<and>
   4 \<le> length (filter (\<lambda>b. b) [True, True, True, True, True]) \<and>
   isFingerExtended pinch_open_pose 4 2 = Some True \<and>
   isFingerExtended pinch_open_pose 8 6 = Some True \<and>
   isFingerExtended pinch_open_pose 12 10 = Some True \<and>
   isFingerExtended pinch_open_pose 16 14 = Some True \<and>
   isFingerExtended pinch_open_pose 20 18 = Some True \<and>
   detectGesture pinch_open_pose = Some \<lparr>gtype = PINCH, strength = Num 1\<rparr>"
proof -
  have len: "21 \<le> length pinch_open_pose"
    by (simp add: pinch_open_pose_facts)
  from pinch_precedence [OF len] obtain d where
    d: "distance (js_index pinch_open_pose 4) (js_index pinch_open_pose 8) = Some d"
    and p: "js_lt d (Num 0.05) \<longrightarrow> detectGesture pinch_open_pose =
       Some \<lparr>gtype = PINCH, strength = js_max (Num 0) (js_sub (Num 1) (js_mul d (Num 20)))\<rparr>"
    by blast
  from d have "d = Num 0"
    by (simp add: pinch_open_pose_facts)
  with p have "detectGesture pinch_open_pose = Some \<lparr>gtype = PINCH, strength = Num 1\<rparr>"
    by (simp add: js_sub_def)
  then show ?thesis
    using len by (simp add: pinch_open_pose_facts)
qed

subsection \<open>Output contract and totality\<close>

text \<open>
  Claim C4. For every list of landmarks, of any length, the classifier returns a result
  and throws no exception. The strength of the result is a finite number between 0 and 1;
  a list of fewer than 21 joints gives (NONE, 0); every category other than NONE and PINCH
  comes with strength 1 and NONE with strength 0; the category DOUBLE_PALM is never
  returned.
\<close>

theorem detectGesture_contract:
  "\<exists>r. detectGesture lms = Some r \<and>
       (\<exists>s. strength r = Num s \<and> 0 \<le> s \<and> s \<le> 1) \<and>
       (length lms < 21 \<longrightarrow> r = \<lparr>gtype = NONE, strength = Num 0\<rparr>) \<and>
       (gtype r \<noteq> NONE \<and> gtype r \<noteq> PINCH \<longrightarrow> strength r = Num 1) \<and>
       (gtype r = NONE \<longrightarrow> strength r = Num 0) \<and>
       gtype r \<noteq> DOUBLE_PALM"
proof (cases "length lms < 21")
  case True
  then show ?thesis by (simp add: detectGesture_def)
next
  case False
  then have len: "21 \<le> length lms" by simp
  from fingers_total [OF len] obtain d te ie me re pe where
    h: "distance (js_index lms 4) (js_index lms 8) = Some d"
       "isFingerExtended lms 4 2 = Some te" "isFingerExtended lms 8 6 = Some ie"
       "isFingerExtended lms 12 10 = Some me" "isFingerExtended lms 16 14 = Some re"
       "isFingerExtended lms 20 18 = Some pe"
    by blast
  show ?thesis
  proof (cases "js_lt d (Num 0.05)")
    case True
    from distance_lt_Num [OF h(1) True] obtain r where r: "d = Num r" "0 \<le> r" "r < 0.05"
      by blast
    have "detectGesture lms = Some \<lparr>gtype = PINCH, strength = Num (1 - r * 20)\<rparr>"
      using detectGesture_pinch [OF len h(1) True] r by (simp add: js_sub_def)
    then show ?thesis using r False by simp
  next
    case nopinch: False
    show ?thesis
      using detectGesture_rest [OF len h(1) nopinch h(2-6)] False by simp
  qed
qed

text \<open>
  The theorem at the empty list, which has fewer than 21 joints and gives (NONE, 0), and
  at \<open>fist_pose\<close>, whose category CLOSED_FIST is neither NONE nor PINCH and comes with
  strength 1.
\<close>

theorem detectGesture_contract_witness:
  "length ([] :: HandLandmark list) < 21 \<and>
   detectGesture [] = Some \<lparr>gtype = NONE, strength = Num 0\<rparr> \<and>
   detectGesture fist_pose = Some \<lparr>gtype = CLOSED_FIST, strength = Num 1\<rparr> \<and>
   CLOSED_FIST \<noteq> NONE \<and> CLOSED_FIST \<noteq> PINCH"
proof -
  from detectGesture_contract [of "[]"]
  have a: "detectGesture [] = Some \<lparr>gtype = NONE, strength = Num 0\<rparr>"
    by auto
  from detectGesture_contract [of fist_pose] detectGesture_fist_pose a
  show ?thesis by simp
qed

subsection \<open>The pinch threshold\<close>

text \<open>
  Claim C5, as amended. For every hand pose of at least 21 joints the classifier returns
  PINCH if and only if the distance of the thumb tip to the index tip is strictly less
  than 0.05; at distance exactly 0.05 the result is not PINCH; when PINCH is returned its
  strength is clamp(1 - distance * 20, 0, 1). The strength falls from 1 at distance 0
  towards 0 at the threshold: at distance 0.0499 it is 0.002.
\<close>

theorem pinch_threshold:
  assumes "21 \<le> length lms"
  shows "\<exists>d r. distance (js_index lms 4) (js_index lms 8) = Some d \<and>
           detectGesture lms = Some r \<and>
           (gtype r = PINCH \<longleftrightarrow> js_lt d (Num 0.05)) \<and>
           (gtype r = PINCH \<longrightarrow>
              strength r = clamp (js_sub (Num 1) (js_mul d (Num 20))) (Num 0) (Num 1)) \<and>
           (d = Num 0.05 \<longrightarrow> gtype r \<noteq> PINCH) \<and>
           (d = Num 0.0499 \<longrightarrow> r = \<lparr>gtype = PINCH, strength = Num 0.002\<rparr>)"
proof -
  from fingers_total [OF assms] obtain d te ie me re pe where
    h: "distance (js_index lms 4) (js_index lms 8) = Some d"
       "isFingerExtended lms 4 2 = Some te" "isFingerExtended lms 8 6 = Some ie"
       "isFingerExtended lms 12 10 = Some me" "isFingerExtended lms 16 14 = Some re"
       "isFingerExtended lms 20 18 = Some pe"
    by blast
  show ?thesis
  proof (cases "js_lt d (Num 0.05)")
    case True
    from distance_lt_Num [OF h(1) True] obtain r where r: "d = Num r" "0 \<le> r" "r < 0.05"
      by blast
    have "detectGesture lms = Some \<lparr>gtype = PINCH, strength = Num (1 - r * 20)\<rparr>"
      using detectGesture_pinch [OF assms h(1) True] r by (simp add: js_sub_def)
    moreover have "clamp (js_sub (Num 1) (js_mul d (Num 20))) (Num 0) (Num 1) = Num (1 - r * 20)"
      using clamp_unit r by simp
    ultimately show ?thesis using h(1) True r by auto
  next
    case False
    have "\<exists>r. detectGesture lms = Some r \<and> gtype r \<noteq> PINCH"
      using detectGesture_rest [OF assms h(1) False h(2-6)] by simp
    then show ?thesis using h(1) False by auto
  qed
qed

text \<open>
  The theorem at \<open>weak_pinch_pose\<close>, whose pinch distance is 0.0499 and whose result is
  PINCH with strength 0.002, and at \<open>edge_pinch_pose\<close>, whose pinch distance is 0.05 and
  whose result is THUMBS_UP.
\<close>

theorem pinch_threshold_witness:
  "21 \<le> length weak_pinch_pose \<and>
   distance (js_index weak_pinch_pose 4) (js_index weak_pinch_pose 8) = Some (Num 0.0499) \<and>
   js_lt (Num 0.0499) (Num 0.05) \<and>
   detectGesture weak_pinch_pose = Some \<lparr>gtype = PINCH, strength = Num 0.002\<rparr> \<and>
   strength \<lparr>gtype = PINCH, strength = Num 0.002\<rparr> =
     clamp (js_sub (Num 1) (js_mul (Num 0.0499) (Num 20))) (Num 0) (Num 1) \<and>
   21 \<le> length edge_pinch_pose \<and>
   distance (js_index edge_pinch_pose 4) (js_index edge_pinch_pose 8) = Some (Num 0.05) \<and>
   \<not> js_lt (Num 0.05) (Num 0.05) \<and>
   detectGesture edge_pinch_pose = Some \<lparr>gtype = THUMBS_UP, strength = Num 1\<rparr>"
proof -
  have len: "21 \<le> length weak_pinch_pose" "21 \<le> length edge_pinch_pose"
    by (simp_all add: weak_pinch_pose_def edge_pinch_pose_def Let_def)
  have d: "distance (js_index weak_pinch_pose 4) (js_index weak_pinch_pose 8) = Some (Num 0.0499)"
    by (simp add: weak_pinch_pose_def Let_def js_index_def distance_along_x)
  have e: "distance (js_index edge_pinch_pose 4) (js_index edge_pinch_pose 8) = Some (Num 0.05)"
    by (simp add: edge_pinch_pose_def Let_def js_index_def distance_along_x)
  from pinch_threshold [OF len(1)] d
  have w: "detectGesture weak_pinch_pose = Some \<lparr>gtype = PINCH, strength = Num 0.002\<rparr>"
    by auto
  from pinch_threshold [OF len(2)] e
  have "\<exists>r. detectGesture edge_pinch_pose = Some r \<and> gtype r \<noteq> PINCH"
    by auto
  moreover have "detectGesture edge_pinch_pose = Some \<lparr>gtype = THUMBS_UP, strength = Num 1\<rparr>"
    by (simp add: detectGesture_def edge_pinch_pose_def landmark_def js_index_def distance_def
        isFingerExtended_def js_sub_def js_gt_def Let_def)
  ultimately show ?thesis
    using len d e w by (simp add: clamp_def js_sub_def)
qed

text \<open>
  Claim C5 as the specification states it says that a pinch at distance 0.0499 has a
  strength of about 1. At \<open>weak_pinch_pose\<close> the classifier returns PINCH with strength
  0.002, which is farther than 0.99 from 1.
\<close>

theorem weak_pinch_strength_counterexample:
  "distance (js_index weak_pinch_pose 4) (js_index weak_pinch_pose 8) = Some (Num 0.0499) \<and>
   detectGesture weak_pinch_pose = Some \<lparr>gtype = PINCH, strength = Num 0.002\<rparr> \<and>
   (1 :: real) - 0.002 > 0.99"
proof -
  have len: "21 \<le> length weak_pinch_pose"
    by (simp add: weak_pinch_pose_def Let_def)
  have d: "distance (js_index weak_pinch_pose 4) (js_index weak_pinch_pose 8) = Some (Num 0.0499)"
    by (simp add: weak_pinch_pose_def Let_def js_index_def distance_along_x)
  have "js_lt (Num 0.0499) (Num 0.05)" by simp
  from detectGesture_pinch [OF len d this] d show ?thesis
    by (simp add: js_sub_def)
qed

subsection \<open>Extension of a digit and the closed fist\<close>

text \<open>
  Claim C9, as amended. In a hand pose of at least 21 joints a digit counts as extended if
  and only if its tip is farther from the wrist than its proximal joint (joint 2, the MCP,
  for the thumb whose tip is joint 4; the PIP joints 6, 10, 14 and 18 for the tips 8, 12, 16
  and 20). When the tip of each of the five digits is nearer to the wrist than its proximal
  joint and the thumb tip is not at distance less than 0.05 of the index tip, the
  classifier returns CLOSED_FIST with strength 1.
\<close>

theorem closed_fist_unless_pinch:
  assumes "21 \<le> length lms"
    and "wrist_to lms 4 = Some thumbTip" and "wrist_to lms 2 = Some thumbMcp"
    and "wrist_to lms 8 = Some indexTip" and "wrist_to lms 6 = Some indexPip"
    and "wrist_to lms 12 = Some middleTip" and "wrist_to lms 10 = Some middlePip"
    and "wrist_to lms 16 = Some ringTip" and "wrist_to lms 14 = Some ringPip"
    and "wrist_to lms 20 = Some pinkyTip" and "wrist_to lms 18 = Some pinkyPip"
    and "distance (js_index lms 4) (js_index lms 8) = Some pinchDist"
  shows "isFingerExtended lms 4 2 = Some (js_gt thumbTip thumbMcp) \<and>
         isFingerExtended lms 8 6 = Some (js_gt indexTip indexPip) \<and>
         isFingerExtended lms 12 10 = Some (js_gt middleTip middlePip) \<and>
         isFingerExtended lms 16 14 = Some (js_gt ringTip ringPip) \<and>
         isFingerExtended lms 20 18 = Some (js_gt pinkyTip pinkyPip) \<and>
         (js_lt thumbTip thumbMcp \<and> js_lt indexTip indexPip \<and> js_lt middleTip middlePip \<and>
          js_lt ringTip ringPip \<and> js_lt pinkyTip pinkyPip \<and> \<not> js_lt pinchDist (Num 0.05) \<longrightarrow>
          detectGesture lms = Some \<lparr>gtype = CLOSED_FIST, strength = Num 1\<rparr>)"
proof -
  have e: "isFingerExtended lms 4 2 = Some (js_gt thumbTip thumbMcp)"
      "isFingerExtended lms 8 6 = Some (js_gt indexTip indexPip)"
      "isFingerExtended lms 12 10 = Some (js_gt middleTip middlePip)"
      "isFingerExtended lms 16 14 = Some (js_gt ringTip ringPip)"
      "isFingerExtended lms 20 18 = Some (js_gt pinkyTip pinkyPip)"
    using assms(2-11) by (simp_all add: isFingerExtended_def)
  have "detectGesture lms = Some \<lparr>gtype = CLOSED_FIST, strength = Num 1\<rparr>"
    if c: "js_lt thumbTip thumbMcp" "js_lt indexTip indexPip" "js_lt middleTip middlePip"
      "js_lt ringTip ringPip" "js_lt pinkyTip pinkyPip" and np: "\<not> js_lt pinchDist (Num 0.05)"
    using detectGesture_rest [OF assms(1) assms(12) np e] c
    by (simp add: js_gt_def js_lt_asym)
  with e show ?thesis by blast
qed

text \<open>The theorem at \<open>fist_pose\<close>: five curled digits and a pinch distance of 2.\<close>

theorem closed_fist_unless_pinch_witness:
  "21 \<le> length fist_pose \<and>
   wrist_to fist_pose 4 = Some (Num 1) \<and> wrist_to fist_pose 2 = Some (Num 2) \<and>
   wrist_to fist_pose 8 = Some (Num 1) \<and> wrist_to fist_pose 6 = Some (Num 2) \<and>
   wrist_to fist_pose 12 = Some (Num 1) \<and> wrist_to fist_pose 10 = Some (Num 2) \<and>
   wrist_to fist_pose 16 = Some (Num 1) \<and> wrist_to fist_pose 14 = Some (Num 2) \<and>
   wrist_to fist_pose 20 = Some (Num 1) \<and> wrist_to fist_pose 18 = Some (Num 2) \<and>
   distance (js_index fist_pose 4) (js_index fist_pose 8) = Some (Num 2) \<and>
   js_lt (Num 1) (Num 2) \<and> \<not> js_lt (Num 2) (Num 0.05) \<and>
   detectGesture fist_pose = Some \<lparr>gtype = CLOSED_FIST, strength = Num 1\<rparr>"
proof -
  have len: "21 \<le> length fist_pose" by (simp add: fist_pose_dists)
  from closed_fist_unless_pinch [OF len fist_pose_dists(2-12)]
  have "detectGesture fist_pose = Some \<lparr>gtype = CLOSED_FIST, strength = Num 1\<rparr>"
    by simp
  then show ?thesis by (simp add: fist_pose_dists)
qed

text \<open>
  Claim C9 as the specification states it has no condition on the pinch distance. In
  \<open>curled_pinch_pose\<close> the tip of each of the five digits is at distance 1 of the wrist
  and its proximal joint at distance 2, and the classifier returns PINCH, not CLOSED_FIST:
  the thumb tip touches the index tip and the pinch rule comes first.
\<close>

theorem curled_pinch_counterexample:
  "length curled_pinch_pose = 21 \<and>
   wrist_to curled_pinch_pose 4 = Some (Num 1) \<and> wrist_to curled_pinch_pose 2 = Some (Num 2) \<and>
   wrist_to curled_pinch_pose 8 = Some (Num 1) \<and> wrist_to curled_pinch_pose 6 = Some (Num 2) \<and>
   wrist_to curled_pinch_pose 12 = Some (Num 1) \<and> wrist_to curled_pinch_pose 10 = Some (Num 2) \<and>
   wrist_to curled_pinch_pose 16 = Some (Num 1) \<and> wrist_to curled_pinch_pose 14 = Some (Num 2) \<and>
   wrist_to curled_pinch_pose 20 = Some (Num 1) \<and> wrist_to curled_pinch_pose 18 = Some (Num 2) \<and>
   js_lt (Num 1) (Num 2) \<and>
   detectGesture curled_pinch_pose = Some \<lparr>gtype = PINCH, strength = Num 1\<rparr> \<and>
   PINCH \<noteq> CLOSED_FIST"
proof -
  have len: "21 \<le> length curled_pinch_pose"
    by (simp add: curled_pinch_pose_def Let_def)
  have d: "distance (js_index curled_pinch_pose 4) (js_index curled_pinch_pose 8) = Some (Num 0)"
    by (simp add: curled_pinch_pose_def Let_def js_index_def distance_along_x)
  have "js_lt (Num 0) (Num 0.05)" by simp
  from detectGesture_pinch [OF len d this]
  have "detectGesture curled_pinch_pose = Some \<lparr>gtype = PINCH, strength = Num 1\<rparr>"
    by (simp add: js_sub_def)
  then show ?thesis
    by (simp add: curled_pinch_pose_def Let_def js_index_def distance_along_x)
qed


section \<open>Properties of the particle scene\<close>

subsection \<open>Auxiliary facts about numbers and the loop body\<close>

declare handForce.simps [simp del]

lemma js_mul_commute: "js_mul a b = js_mul b a"
  by (cases a; cases b) auto

lemma js_add_NaN [simp]: "js_add a NaN = NaN"
  by (cases a) simp_all

lemma js_min_not_gt: "\<not> js_gt (js_min a (Num c)) (Num c)"
  by (cases a) (auto simp: js_gt_def)

lemma spec_velocity_code:
  "spec_velocity v h p dt = js_mul (js_add v (js_mul (js_mul (js_sub h p) (Num 1.5)) dt)) (Num 0.92)"
  unfolding spec_velocity_def by (rule js_mul_commute)

lemma upt_split_at: "i < n \<Longrightarrow> [0..<n] = [0..<i] @ i # [Suc i..<n]"
proof -
  assume a: "i < n"
  have "[0..<i + (n - i)] = [0..<i] @ [i..<i + (n - i)]"
    by (rule upt_add_eq_append) simp
  then show ?thesis
    using a by (simp add: upt_conv_Cons)
qed

lemma colorUpdate_length:
  "length (fst (colorUpdate e setHSL rnd k i3 px d hp cols)) = length cols"
  by (simp add: colorUpdate_def Let_def split: prod.splits)

lemma particleForces_nohand:
  "\<not> tl_isHandPresent e \<Longrightarrow>
   particleForces e dt setHSL rnd i (b, k) =
     ((js_add (f32_get (velocities b) (i * 3))
         (js_mul (js_mul (js_sub (f32_get (homePositions b) (i * 3))
                                 (f32_get (positions b) (i * 3))) (Num 1.5)) dt),
       js_add (f32_get (velocities b) (i * 3 + 1))
         (js_mul (js_mul (js_sub (f32_get (homePositions b) (i * 3 + 1))
                                 (f32_get (positions b) (i * 3 + 1))) (Num 1.5)) dt),
       js_add (f32_get (velocities b) (i * 3 + 2))
         (js_mul (js_mul (js_sub (f32_get (homePositions b) (i * 3 + 2))
                                 (f32_get (positions b) (i * 3 + 2))) (Num 1.5)) dt)),
      colors b, k)"
  by (simp add: particleForces_def Let_def)

lemma particleForces_colors_length:
  "particleForces e dt setHSL rnd i (b, k) = (v, cols, k') \<Longrightarrow> length cols = length (colors b)"
  by (auto simp: particleForces_def Let_def split: if_splits prod.splits
      dest: arg_cong [where f = "\<lambda>r. length (fst r)"] simp: colorUpdate_length)

lemma particleStep_home:
  "homePositions (fst (particleStep e dt setHSL rnd i bk)) = homePositions (fst bk)"
  by (simp add: particleStep_def Let_def split: prod.splits)

lemma particleStep_lengths:
  "length (positions (fst (particleStep e dt setHSL rnd i bk))) = length (positions (fst bk))"
  "length (velocities (fst (particleStep e dt setHSL rnd i bk))) = length (velocities (fst bk))"
  by (simp_all add: particleStep_def Let_def split: prod.splits)

lemma particleStep_colors_length:
  "length (colors (fst (particleStep e dt setHSL rnd i bk))) = length (colors (fst bk))"
proof (cases bk)
  case (Pair b k)
  then show ?thesis
    by (auto simp: particleStep_def Let_def split: prod.splits dest: particleForces_colors_length)
qed

lemma particleStep_frame:
  assumes "j \<noteq> i * 3" "j \<noteq> i * 3 + 1" "j \<noteq> i * 3 + 2"
  shows "positions (fst (particleStep e dt setHSL rnd i bk)) ! j = positions (fst bk) ! j"
    and "velocities (fst (particleStep e dt setHSL rnd i bk)) ! j = velocities (fst bk) ! j"
  using assms by (simp_all add: particleStep_def Let_def split: prod.splits)

lemma fold_particleStep_home:
  "homePositions (fst (fold (particleStep e dt setHSL rnd) js bk)) = homePositions (fst bk)"
  by (induction js arbitrary: bk) (simp_all add: particleStep_home)

lemma fold_particleStep_lengths:
  "length (positions (fst (fold (particleStep e dt setHSL rnd) js bk))) = length (positions (fst bk))"
  "length (velocities (fst (fold (particleStep e dt setHSL rnd) js bk))) = length (velocities (fst bk))"
  "length (colors (fst (fold (particleStep e dt setHSL rnd) js bk))) = length (colors (fst bk))"
  by (induction js arbitrary: bk)
     (simp_all add: particleStep_lengths particleStep_colors_length)

lemma fold_particleStep_frame:
  assumes "\<forall>i \<in> set js. j \<noteq> i * 3 \<and> j \<noteq> i * 3 + 1 \<and> j \<noteq> i * 3 + 2"
  shows "positions (fst (fold (particleStep e dt setHSL rnd) js bk)) ! j = positions (fst bk) ! j"
    and "velocities (fst (fold (particleStep e dt setHSL rnd) js bk)) ! j = velocities (fst bk) ! j"
  using assms by (induction js arbitrary: bk) (simp_all add: particleStep_frame)

lemma particleStep_nohand:
  assumes "\<not> tl_isHandPresent e"
    and "i * 3 + 2 < length (positions b)" and "i * 3 + 2 < length (velocities b)"
    and "i * 3 + 2 < length (homePositions b)"
  shows "particleStep e dt setHSL rnd i (b, k) =
    (b\<lparr>positions := (positions b)
           [i * 3 := snd (spec_step b dt (i * 3)),
            i * 3 + 1 := snd (spec_step b dt (i * 3 + 1)),
            i * 3 + 2 := snd (spec_step b dt (i * 3 + 2))],
        velocities := (velocities b)
           [i * 3 := fst (spec_step b dt (i * 3)),
            i * 3 + 1 := fst (spec_step b dt (i * 3 + 1)),
            i * 3 + 2 := fst (spec_step b dt (i * 3 + 2))],
        colors := colors b\<rparr>, k)"
  using assms
  by (simp add: particleStep_def particleForces_nohand f32_get_def Let_def spec_step_def
      spec_velocity_code spec_position_def)

lemma fold_nohand:
  assumes "\<not> tl_isHandPresent e"
    and "n * 3 \<le> length (positions b)" and "n * 3 \<le> length (velocities b)"
    and "n * 3 \<le> length (homePositions b)"
  shows "\<exists>b'. fold (particleStep e dt setHSL rnd) [0..<n] (b, k) = (b', k) \<and>
           colors b' = colors b \<and>
           (\<forall>j. velocities b' ! j = (if j < n * 3 then fst (spec_step b dt j) else velocities b ! j)) \<and>
           (\<forall>j. positions b' ! j = (if j < n * 3 then snd (spec_step b dt j) else positions b ! j))"
  using assms
proof (induction n)
  case 0
  then show ?case by simp
next
  case (Suc n)
  then obtain b' where
    f: "fold (particleStep e dt setHSL rnd) [0..<n] (b, k) = (b', k)"
    and c: "colors b' = colors b"
    and v: "\<And>j. velocities b' ! j = (if j < n * 3 then fst (spec_step b dt j) else velocities b ! j)"
    and p: "\<And>j. positions b' ! j = (if j < n * 3 then snd (spec_step b dt j) else positions b ! j)"
    by auto
  have h: "homePositions b' = homePositions b"
    using fold_particleStep_home [of e dt setHSL rnd "[0..<n]" "(b, k)"] f by simp
  have l: "length (positions b') = length (positions b)"
      "length (velocities b') = length (velocities b)"
    using fold_particleStep_lengths [of e dt setHSL rnd "[0..<n]" "(b, k)"] f by simp_all
  have r: "n * 3 + 2 < length (positions b')" "n * 3 + 2 < length (velocities b')"
      "n * 3 + 2 < length (homePositions b')"
    using Suc.prems l h by simp_all
  have same: "spec_step b' dt j = spec_step b dt j" if "n * 3 \<le> j" for j
    using that by (simp add: spec_step_def v p h)
  define b'' where "b'' = fst (particleStep e dt setHSL rnd n (b', k))"
  have step: "particleStep e dt setHSL rnd n (b', k) = (b'', k)"
    unfolding b''_def using particleStep_nohand [OF Suc.prems(1) r] by simp
  have "fold (particleStep e dt setHSL rnd) [0..<Suc n] (b, k) = (b'', k)"
    using f step by simp
  moreover have "colors b'' = colors b"
    unfolding b''_def using particleStep_nohand [OF Suc.prems(1) r] c by simp
  moreover have "velocities b'' ! j =
      (if j < Suc n * 3 then fst (spec_step b dt j) else velocities b ! j)" for j
  proof -
    consider "j = n * 3" | "j = n * 3 + 1" | "j = n * 3 + 2" | "j < n * 3" | "n * 3 + 2 < j"
      by linarith
    then show ?thesis
      unfolding b''_def using r
      by cases (simp_all add: particleStep_nohand [OF Suc.prems(1) r] same v)
  qed
  moreover have "positions b'' ! j =
      (if j < Suc n * 3 then snd (spec_step b dt j) else positions b ! j)" for j
  proof -
    consider "j = n * 3" | "j = n * 3 + 1" | "j = n * 3 + 2" | "j < n * 3" | "n * 3 + 2 < j"
      by linarith
    then show ?thesis
      unfolding b''_def using r
      by cases (simp_all add: particleStep_nohand [OF Suc.prems(1) r] same p)
  qed
  ultimately show ?case by blast
qed

lemma particleStep_velocity_at:
  assumes "i * 3 + 2 < length (velocities (fst bk))" and "c < 3"
  shows "velocities (fst (particleStep e dt setHSL rnd i bk)) ! (i * 3 + c) =
         js_mul (component (fst (particleForces e dt setHSL rnd i bk)) c) (Num 0.92)"
proof -
  consider "c = 0" | "c = 1" | "c = 2" using assms(2) by linarith
  then show ?thesis
    using assms(1)
    by cases (simp_all add: particleStep_def Let_def split: prod.splits)
qed

lemma fold_particleStep_velocity_at:
  assumes "i < n" and "i * 3 + 2 < length (velocities b)" and "c < 3"
  shows "velocities (fst (fold (particleStep e dt setHSL rnd) [0..<n] (b, k))) ! (i * 3 + c) =
         js_mul (component (fst (particleForces e dt setHSL rnd i
                    (fold (particleStep e dt setHSL rnd) [0..<i] (b, k)))) c) (Num 0.92)"
proof -
  let ?step = "particleStep e dt setHSL rnd"
  let ?bk = "fold ?step [0..<i] (b, k)"
  have len: "i * 3 + 2 < length (velocities (fst ?bk))"
    using assms(2) by (simp add: fold_particleStep_lengths)
  have "fold ?step [0..<n] (b, k) = fold ?step [Suc i..<n] (?step i ?bk)"
    by (simp add: upt_split_at [OF assms(1)])
  moreover have "\<forall>i' \<in> set [Suc i..<n].
      i * 3 + c \<noteq> i' * 3 \<and> i * 3 + c \<noteq> i' * 3 + 1 \<and> i * 3 + c \<noteq> i' * 3 + 2"
    using assms(3) by auto
  ultimately have "velocities (fst (fold ?step [0..<n] (b, k))) ! (i * 3 + c) =
      velocities (fst (?step i ?bk)) ! (i * 3 + c)"
    by (simp add: fold_particleStep_frame)
  then show ?thesis
    using particleStep_velocity_at [OF len assms(3)] by simp
qed

lemma animate_conserves:
  assumes "bufs s = Some b"
  shows "\<exists>b'. bufs (animate setHSL now rnd s) = Some b' \<and> same_buffers b b'"
proof (cases "rendererReady s")
  case False
  then show ?thesis using assms by (simp add: animate_def same_buffers_def)
next
  case True
  then show ?thesis
    using assms
    by (simp add: animate_def Let_def same_buffers_def fold_particleStep_home
        fold_particleStep_lengths)
qed

lemma predictHands_bufs: "bufs (fst (predictHands hands now fs s)) = bufs s"
  by (simp add: predictHands_def Let_def split: option.splits)

lemma predict_conserves:
  assumes "bufs s = Some b"
  shows "\<exists>b'. bufs (fst (predict setHSL f s)) = Some b' \<and> same_buffers b b'"
proof -
  have "\<exists>s'. fst (predict setHSL f s) = animate setHSL (nowAnimate f) (randomValues f) s' \<and>
      bufs s' = bufs s"
    using predictHands_bufs
    by (auto simp: predict_def split: prod.splits option.splits)
       (metis fst_conv)+
  then show ?thesis using assms animate_conserves by metis
qed

lemma same_buffers_trans: "same_buffers a b \<Longrightarrow> same_buffers b c \<Longrightarrow> same_buffers a c"
  by (simp add: same_buffers_def)

lemma run_conserves:
  assumes "bufs s = Some b"
  shows "\<exists>b'. bufs (run setHSL frames s) = Some b' \<and> same_buffers b b'"
  using assms
proof (induction frames arbitrary: s b)
  case Nil
  then show ?case by (simp add: same_buffers_def)
next
  case (Cons f frames)
  from predict_conserves [OF Cons.prems] obtain b1 where
    b1: "bufs (fst (predict setHSL f s)) = Some b1" "same_buffers b b1"
    by blast
  from Cons.IH [OF b1(1)] obtain b' where
    "bufs (run setHSL frames (fst (predict setHSL f s))) = Some b'" "same_buffers b1 b'"
    by blast
  with b1(2) show ?case
    by (auto intro: same_buffers_trans)
qed

lemma ticks_conserves:
  assumes "bufs s = Some b"
  shows "\<exists>b'. bufs (ticks setHSL ts s) = Some b' \<and> same_buffers b b'"
  using assms
proof (induction ts arbitrary: s b)
  case Nil
  then show ?case by (simp add: same_buffers_def)
next
  case (Cons t ts)
  let ?s = "s\<lparr>handPosition := tickHandPosition t, isHandPresent := tickHandPresent t,
    gesture := tickGesture t, gestureStrength := tickStrength t\<rparr>"
  have "bufs ?s = Some b" using Cons.prems by simp
  from animate_conserves [OF this] obtain b1 where
    b1: "bufs (animate setHSL (tickNow t) (tickRandom t) ?s) = Some b1" "same_buffers b b1"
    by blast
  from Cons.IH [OF b1(1)] obtain b' where
    "bufs (ticks setHSL ts (animate setHSL (tickNow t) (tickRandom t) ?s)) = Some b'"
    "same_buffers b1 b'"
    by blast
  with b1(2) show ?case
    by (auto intro: same_buffers_trans)
qed

lemma initParticle_lengths:
  "length (positions (initParticle rnd i b)) = length (positions b)"
  "length (velocities (initParticle rnd i b)) = length (velocities b)"
  "length (homePositions (initParticle rnd i b)) = length (homePositions b)"
  "length (colors (initParticle rnd i b)) = length (colors b)"
  by (simp_all add: initParticle_def Let_def)

lemma fold_initParticle_lengths:
  "length (positions (fold (initParticle rnd) js b)) = length (positions b)"
  "length (velocities (fold (initParticle rnd) js b)) = length (velocities b)"
  "length (homePositions (fold (initParticle rnd) js b)) = length (homePositions b)"
  "length (colors (fold (initParticle rnd) js b)) = length (colors b)"
  by (induction js arbitrary: b) (simp_all add: initParticle_lengths)

lemma initThree_buffers:
  assumes "\<not> rendererReady s"
  shows "\<exists>b. bufs (initThree True rnd s) = Some b \<and>
           length (positions b) = PARTICLE_COUNT * 3 \<and>
           length (velocities b) = PARTICLE_COUNT * 3 \<and>
           length (homePositions b) = PARTICLE_COUNT * 3 \<and>
           length (colors b) = PARTICLE_COUNT * 3"
  using assms by (simp add: initThree_def Let_def fold_initParticle_lengths)

lemma tickLocalsOf_timer: "tickLocalsOf (s\<lparr>doublePalmTimer := t\<rparr>) = tickLocalsOf s"
  by (simp add: tickLocalsOf_def)

lemma animate_timer:
  "animate setHSL now rnd (s\<lparr>doublePalmTimer := t\<rparr>) =
   (animate setHSL now rnd s)\<lparr>doublePalmTimer := t\<rparr>"
proof -
  have "tickLocalsOf (s\<lparr>doublePalmTimer := t, lastTime := now, time := u\<rparr>) =
        tickLocalsOf (s\<lparr>lastTime := now, time := u\<rparr>)" for u
    by (simp add: tickLocalsOf_def)
  then show ?thesis
    by (simp add: animate_def Let_def split: option.splits)
qed


subsection \<open>The update of a particle without a hand\<close>

text \<open>
  Claim C2. In an initialised scene of 25,000 particles, one call of \<^verbatim>\<open>animate\<close> uses the
  elapsed time \<open>dt = min((now - lastTime) / 1000, 0.1)\<close>, which is never greater than 0.1.
  For every coordinate \<open>c\<close> of every particle \<open>i\<close> the new velocity is 0.92 times the
  velocity that the forces on the particle give, whether a hand is present or not. When
  no hand is present the new velocity is \<open>0.92 * (v + (h - p) * 1.5 * dt)\<close> and the new
  position is \<open>p + v' * dt\<close>, for the old position \<open>p\<close>, velocity \<open>v\<close> and home
  position \<open>h\<close>; the colours and the home positions are unchanged.
\<close>

theorem animate_hand_absent:
  assumes "rendererReady s" and "bufs s = Some b"
    and "length (positions b) = PARTICLE_COUNT * 3"
    and "length (velocities b) = PARTICLE_COUNT * 3"
    and "length (homePositions b) = PARTICLE_COUNT * 3"
    and "i < PARTICLE_COUNT" and "c < 3"
  shows "\<exists>b' dt e. bufs (animate setHSL now rnd s) = Some b' \<and>
           dt = js_min (js_div (js_sub now (lastTime s)) (Num 1000)) (Num 0.1) \<and>
           \<not> js_gt dt (Num 0.1) \<and>
           e = tickLocalsOf (s\<lparr>lastTime := now, time := js_add (time s) dt\<rparr>) \<and>
           velocities b' ! (i * 3 + c) =
             js_mul (component (fst (particleForces e dt setHSL rnd i
                 (fold (particleStep e dt setHSL rnd) [0..<i] (b, 0)))) c) (Num 0.92) \<and>
           (\<not> isHandPresent s \<longrightarrow>
              velocities b' ! (i * 3 + c) =
                spec_velocity (velocities b ! (i * 3 + c)) (homePositions b ! (i * 3 + c))
                  (positions b ! (i * 3 + c)) dt \<and>
              positions b' ! (i * 3 + c) =
                spec_position (positions b ! (i * 3 + c)) (velocities b' ! (i * 3 + c)) dt \<and>
              colors b' = colors b \<and> homePositions b' = homePositions b)"
proof -
  define dt where "dt = js_min (js_div (js_sub now (lastTime s)) (Num 1000)) (Num 0.1)"
  define e where "e = tickLocalsOf (s\<lparr>lastTime := now, time := js_add (time s) dt\<rparr>)"
  define b' where "b' = fst (fold (particleStep e dt setHSL rnd) [0..<PARTICLE_COUNT] (b, 0))"
  have a: "bufs (animate setHSL now rnd s) = Some b'"
    using assms(1,2) by (simp add: animate_def Let_def b'_def e_def dt_def)
  have j: "i * 3 + c < PARTICLE_COUNT * 3" "i * 3 + 2 < length (velocities b)"
    using assms(4,6,7) by simp_all
  have g: "velocities b' ! (i * 3 + c) =
      js_mul (component (fst (particleForces e dt setHSL rnd i
         (fold (particleStep e dt setHSL rnd) [0..<i] (b, 0)))) c) (Num 0.92)"
    unfolding b'_def using fold_particleStep_velocity_at [OF assms(6) j(2) assms(7)] .
  have n: "velocities b' ! (i * 3 + c) =
        spec_velocity (velocities b ! (i * 3 + c)) (homePositions b ! (i * 3 + c))
          (positions b ! (i * 3 + c)) dt \<and>
      positions b' ! (i * 3 + c) =
        spec_position (positions b ! (i * 3 + c)) (velocities b' ! (i * 3 + c)) dt \<and>
      colors b' = colors b \<and> homePositions b' = homePositions b"
    if "\<not> isHandPresent s"
  proof -
    have nh: "\<not> tl_isHandPresent e" using that by (simp add: e_def tickLocalsOf_def)
    from fold_nohand [OF nh, of PARTICLE_COUNT b dt setHSL rnd 0] assms(3,4,5)
    obtain b2 where
      f: "fold (particleStep e dt setHSL rnd) [0..<PARTICLE_COUNT] (b, 0) = (b2, 0)"
      and c: "colors b2 = colors b"
      and v: "\<And>j. velocities b2 ! j =
          (if j < PARTICLE_COUNT * 3 then fst (spec_step b dt j) else velocities b ! j)"
      and p: "\<And>j. positions b2 ! j =
          (if j < PARTICLE_COUNT * 3 then snd (spec_step b dt j) else positions b ! j)"
      by auto
    have eq: "b' = b2" using f by (simp add: b'_def)
    have "homePositions b' = homePositions b"
      unfolding b'_def using fold_particleStep_home [of e dt setHSL rnd _ "(b, 0)"] by simp
    then show ?thesis
      using j(1) by (simp add: eq c v p spec_step_def Let_def)
  qed
  show ?thesis
    using a g n js_min_not_gt [of "js_div (js_sub now (lastTime s)) (Num 1000)" "0.1"]
    unfolding e_def dt_def by blast
qed

lemma resting_facts:
  "rendererReady resting_state" "bufs resting_state = Some resting_buffers"
  "length (positions resting_buffers) = PARTICLE_COUNT * 3"
  "length (velocities resting_buffers) = PARTICLE_COUNT * 3"
  "length (homePositions resting_buffers) = PARTICLE_COUNT * 3"
  "\<not> isHandPresent resting_state" "lastTime resting_state = Num 0"
  "positions resting_buffers ! 0 = Num 1" "velocities resting_buffers ! 0 = Num 0"
  "homePositions resting_buffers ! 0 = Num 2"
  "colors resting_buffers = replicate (PARTICLE_COUNT * 3) (Num 1)"
  "(0 :: nat) < PARTICLE_COUNT"
  by (simp_all add: resting_state_def resting_buffers_def PARTICLE_COUNT_def)

text \<open>
  The theorem at \<open>resting_state\<close>, 500 ms after the last frame: \<open>dt\<close> is clamped to 0.1,
  and the first coordinate of the first particle, at rest at 1 with its home at 2, gets
  the velocity \<open>0.92 * (0 + (2 - 1) * 1.5 * 0.1) = 0.138\<close> and the position 1.0138.
\<close>

theorem animate_hand_absent_witness:
  "rendererReady resting_state \<and> bufs resting_state = Some resting_buffers \<and>
   length (positions resting_buffers) = PARTICLE_COUNT * 3 \<and>
   length (velocities resting_buffers) = PARTICLE_COUNT * 3 \<and>
   length (homePositions resting_buffers) = PARTICLE_COUNT * 3 \<and>
   (0 :: nat) < PARTICLE_COUNT \<and> (0 :: nat) < 3 \<and> \<not> isHandPresent resting_state \<and>
   js_min (js_div (js_sub (Num 500) (lastTime resting_state)) (Num 1000)) (Num 0.1) = Num 0.1 \<and>
   (\<exists>b'. bufs (animate plain_hsl (Num 500) no_random resting_state) = Some b' \<and>
         velocities b' ! 0 = Num 0.138 \<and> positions b' ! 0 = Num 1.0138 \<and>
         colors b' = replicate (PARTICLE_COUNT * 3) (Num 1) \<and>
         homePositions b' = homePositions resting_buffers)"
proof -
  have c: "(0 :: nat) < 3" by simp
  have dt: "js_min (js_div (js_sub (Num 500) (lastTime resting_state)) (Num 1000)) (Num 0.1) = Num 0.1"
    by (simp add: resting_facts js_sub_def)
  from animate_hand_absent [OF resting_facts(1-5) resting_facts(12) c,
      of plain_hsl "Num 500" no_random]
  obtain b' where
    "bufs (animate plain_hsl (Num 500) no_random resting_state) = Some b'"
    "velocities b' ! 0 = spec_velocity (Num 0) (Num 2) (Num 1) (Num 0.1)"
    "positions b' ! 0 = spec_position (Num 1) (velocities b' ! 0) (Num 0.1)"
    "colors b' = colors resting_buffers" "homePositions b' = homePositions resting_buffers"
    using dt by (auto simp: resting_facts)
  then show ?thesis
    using dt
    by (simp add: resting_facts spec_velocity_def spec_position_def js_sub_def)
qed


subsection \<open>Conservation of the particle buffers\<close>

text \<open>
  Claim C6. \<^verbatim>\<open>initThree\<close> allocates the arrays of 25,000 particles, three entries of each
  array for a particle. After any run of frames from there, whatever the landmarker
  finds and whatever the clocks and the random numbers are, the arrays are still
  allocated with the same lengths, and the array of home positions is the one that
  \<^verbatim>\<open>initThree\<close> filled. The same holds after any sequence of ticks with an arbitrary hand
  presence, hand position, gesture category, strength and clock reading in each tick.
\<close>

theorem particle_buffers_conserved:
  assumes "\<not> rendererReady s0"
  shows "\<exists>b. bufs (initThree True rnd0 s0) = Some b \<and>
           PARTICLE_COUNT = 25000 \<and>
           length (positions b) = PARTICLE_COUNT * 3 \<and>
           length (velocities b) = PARTICLE_COUNT * 3 \<and>
           length (homePositions b) = PARTICLE_COUNT * 3 \<and>
           length (colors b) = PARTICLE_COUNT * 3 \<and>
           (\<exists>b'. bufs (run setHSL frames (initThree True rnd0 s0)) = Some b' \<and>
                 homePositions b' = homePositions b \<and>
                 length (positions b') = PARTICLE_COUNT * 3 \<and>
                 length (velocities b') = PARTICLE_COUNT * 3 \<and>
                 length (colors b') = PARTICLE_COUNT * 3) \<and>
           (\<exists>b'. bufs (ticks setHSL ts (initThree True rnd0 s0)) = Some b' \<and>
                 homePositions b' = homePositions b \<and>
                 length (positions b') = PARTICLE_COUNT * 3 \<and>
                 length (velocities b') = PARTICLE_COUNT * 3 \<and>
                 length (colors b') = PARTICLE_COUNT * 3)"
proof -
  from initThree_buffers [OF assms] obtain b where
    b: "bufs (initThree True rnd0 s0) = Some b"
       "length (positions b) = PARTICLE_COUNT * 3" "length (velocities b) = PARTICLE_COUNT * 3"
       "length (homePositions b) = PARTICLE_COUNT * 3" "length (colors b) = PARTICLE_COUNT * 3"
    by blast
  from run_conserves [OF b(1)] obtain b' where
    r: "bufs (run setHSL frames (initThree True rnd0 s0)) = Some b'" "same_buffers b b'"
    by blast
  from ticks_conserves [OF b(1)] obtain b'' where
    t: "bufs (ticks setHSL ts (initThree True rnd0 s0)) = Some b''" "same_buffers b b''"
    by blast
  show ?thesis
    using b r t by (auto simp: same_buffers_def PARTICLE_COUNT_def)
qed

text \<open>
  The theorem at \<open>idle_state\<close>, for a run of two frames that show a fist and for two
  ticks with a hand present and the category DOUBLE_PALM.
\<close>

theorem particle_buffers_conserved_witness:
  "\<not> rendererReady idle_state \<and>
   (\<exists>b. bufs (initThree True no_random idle_state) = Some b \<and>
        PARTICLE_COUNT = 25000 \<and> length (homePositions b) = PARTICLE_COUNT * 3 \<and>
        (\<exists>b'. bufs (run plain_hsl [fist_frame, fist_frame] (initThree True no_random idle_state))
                 = Some b' \<and>
              homePositions b' = homePositions b \<and>
              length (positions b') = PARTICLE_COUNT * 3) \<and>
        (\<exists>b'. bufs (ticks plain_hsl [palm_tick, palm_tick] (initThree True no_random idle_state))
                 = Some b' \<and>
              homePositions b' = homePositions b \<and>
              length (positions b') = PARTICLE_COUNT * 3))"
proof -
  have i: "\<not> rendererReady idle_state" by (simp add: idle_state_def)
  from particle_buffers_conserved [OF i, of no_random plain_hsl "[fist_frame, fist_frame]"
      "[palm_tick, palm_tick]"] i
  show ?thesis by blast
qed


subsection \<open>A particle at the position of the hand\<close>

lemma handForce_at_hand:
  assumes "tl_gesture e = CLOSED_FIST \<or> tl_gesture e = NONE \<or> tl_gesture e = DOUBLE_PALM"
  shows "fst (handForce e dt rnd k i p (Num 0, Num 0, Num 0) (Num 0) v) = (NaN, NaN, NaN)"
  using assms by (cases p; cases v) (auto simp: handForce.simps Let_def)

lemma particleForces_at_hand_general:
  assumes "tl_isHandPresent e"
    and "tl_gesture e = CLOSED_FIST \<or> tl_gesture e = NONE \<or> tl_gesture e = DOUBLE_PALM"
    and "tl_mouse e = \<lparr>v3_x = Num x, v3_y = Num y, v3_z = Num z\<rparr>"
    and "f32_get (positions b) (i * 3) = Num x"
    and "f32_get (positions b) (i * 3 + 1) = Num y"
    and "f32_get (positions b) (i * 3 + 2) = Num z"
  shows "fst (particleForces e dt setHSL rnd i (b, k)) = (NaN, NaN, NaN)"
proof -
  have "fst (particleForces e dt setHSL rnd i (b, k)) =
      fst (handForce e dt rnd k i (Num x, Num y, Num z) (Num 0, Num 0, Num 0) (Num 0)
        (js_add (f32_get (velocities b) (i * 3))
           (js_mul (js_mul (js_sub (f32_get (homePositions b) (i * 3)) (Num x)) (Num 1.5)) dt),
         js_add (f32_get (velocities b) (i * 3 + 1))
           (js_mul (js_mul (js_sub (f32_get (homePositions b) (i * 3 + 1)) (Num y)) (Num 1.5)) dt),
         js_add (f32_get (velocities b) (i * 3 + 2))
           (js_mul (js_mul (js_sub (f32_get (homePositions b) (i * 3 + 2)) (Num z)) (Num 1.5)) dt)))"
    using assms(1,3-6)
    by (simp add: particleForces_def Let_def js_sub_def split: prod.splits)
  then show ?thesis
    using handForce_at_hand [OF assms(2)] by simp
qed

lemma hand_on_particle_facts:
  "rendererReady (hand_on_particle g)" "bufs (hand_on_particle g) = Some still_buffers"
  "isHandPresent (hand_on_particle g)" "gesture (hand_on_particle g) = g"
  "(0 :: nat) < PARTICLE_COUNT"
  "0 * 3 + 2 < length (positions still_buffers)" "0 * 3 + 2 < length (velocities still_buffers)"
  "handPosition (hand_on_particle g) = \<lparr>v3_x = Num 0, v3_y = Num 0, v3_z = Num 0\<rparr>"
  "positions still_buffers ! (0 * 3) = Num 0" "positions still_buffers ! (0 * 3 + 1) = Num 0"
  "positions still_buffers ! (0 * 3 + 2) = Num 0"
  "velocities still_buffers ! 0 = Num 0"
  "positions still_buffers ! 0 = Num 0" "positions still_buffers ! Suc 0 = Num 0"
  "positions still_buffers ! Suc (Suc 0) = Num 0"
  by (simp_all add: hand_on_particle_def still_buffers_def PARTICLE_COUNT_def)

text \<open>
  Claim C7 says that the velocity of every particle stays finite after every tick, also
  when the particle is exactly at the position of the hand. The code divides the offset
  of the particle by its distance to the hand in the CLOSED_FIST branch and in the
  passive branch (the categories NONE and DOUBLE_PALM), with no guard for a distance of
  zero. The theorem shows what the code does there: when a hand is present with one of
  these categories and particle \<open>i\<close> is at the (finite) position of the hand, the three
  coordinates of the velocity of particle \<open>i\<close> after the call of \<^verbatim>\<open>animate\<close> are \<open>NaN\<close>, the
  value of 0 / 0.
\<close>

theorem velocity_nan_at_hand:
  assumes "rendererReady s" and "bufs s = Some b" and "isHandPresent s"
    and "gesture s = CLOSED_FIST \<or> gesture s = NONE \<or> gesture s = DOUBLE_PALM"
    and "i < PARTICLE_COUNT"
    and "i * 3 + 2 < length (positions b)" and "i * 3 + 2 < length (velocities b)"
    and "handPosition s = \<lparr>v3_x = Num x, v3_y = Num y, v3_z = Num z\<rparr>"
    and "positions b ! (i * 3) = Num x"
    and "positions b ! (i * 3 + 1) = Num y"
    and "positions b ! (i * 3 + 2) = Num z"
  shows "\<exists>b'. bufs (animate setHSL now rnd s) = Some b' \<and>
           velocities b' ! (i * 3) = NaN \<and>
           velocities b' ! (i * 3 + 1) = NaN \<and>
           velocities b' ! (i * 3 + 2) = NaN"
proof -
  define dt where "dt = js_min (js_div (js_sub now (lastTime s)) (Num 1000)) (Num 0.1)"
  define e where "e = tickLocalsOf (s\<lparr>lastTime := now, time := js_add (time s) dt\<rparr>)"
  let ?step = "particleStep e dt setHSL rnd"
  define bk where "bk = fold ?step [0..<i] (b, 0)"
  define b' where "b' = fst (fold ?step [0..<PARTICLE_COUNT] (b, 0))"
  have a: "bufs (animate setHSL now rnd s) = Some b'"
    using assms(1,2) by (simp add: animate_def Let_def b'_def e_def dt_def)
  have e: "tl_isHandPresent e"
      "tl_gesture e = CLOSED_FIST \<or> tl_gesture e = NONE \<or> tl_gesture e = DOUBLE_PALM"
      "tl_mouse e = \<lparr>v3_x = Num x, v3_y = Num y, v3_z = Num z\<rparr>"
    using assms(3,4,8) by (simp_all add: e_def tickLocalsOf_def)
  have fr: "\<forall>i' \<in> set [0..<i]. i * 3 + c \<noteq> i' * 3 \<and> i * 3 + c \<noteq> i' * 3 + 1 \<and>
      i * 3 + c \<noteq> i' * 3 + 2" for c
    by auto
  have len: "length (positions (fst bk)) = length (positions b)"
    by (simp add: bk_def fold_particleStep_lengths)
  have p: "positions (fst bk) ! (i * 3 + c) = positions b ! (i * 3 + c)" for c
    unfolding bk_def
    using fold_particleStep_frame(1) [OF fr, where e = e and dt = dt and setHSL = setHSL
        and rnd = rnd and bk = "(b, 0)"]
    by simp
  have g: "f32_get (positions (fst bk)) (i * 3) = Num x"
      "f32_get (positions (fst bk)) (i * 3 + 1) = Num y"
      "f32_get (positions (fst bk)) (i * 3 + 2) = Num z"
    using p [of 0] p [of 1] p [of 2] assms(6,9,10,11) len by (simp_all add: f32_get_def)
  have n: "fst (particleForces e dt setHSL rnd i bk) = (NaN, NaN, NaN)"
    using particleForces_at_hand_general [OF e g, of dt setHSL rnd "snd bk"] by simp
  have "velocities b' ! (i * 3 + c) = NaN" if "c < 3" for c
    unfolding b'_def
    using fold_particleStep_velocity_at [OF assms(5,7) that, of e dt setHSL rnd 0] n
    by (simp add: bk_def)
  from this [of 0] this [of 1] this [of 2] a show ?thesis by simp
qed

text \<open>
  The theorem at \<open>hand_on_particle\<close>, where the first particle rests on the hand at the
  origin, for the categories CLOSED_FIST and NONE.
\<close>

theorem velocity_nan_at_hand_witness:
  "rendererReady (hand_on_particle CLOSED_FIST) \<and>
   bufs (hand_on_particle CLOSED_FIST) = Some still_buffers \<and>
   isHandPresent (hand_on_particle CLOSED_FIST) \<and>
   gesture (hand_on_particle CLOSED_FIST) = CLOSED_FIST \<and>
   handPosition (hand_on_particle CLOSED_FIST) = \<lparr>v3_x = Num 0, v3_y = Num 0, v3_z = Num 0\<rparr> \<and>
   positions still_buffers ! 0 = Num 0 \<and> positions still_buffers ! 1 = Num 0 \<and>
   positions still_buffers ! 2 = Num 0 \<and> velocities still_buffers ! 0 = Num 0 \<and>
   (\<exists>b'. bufs (animate plain_hsl (Num 16) no_random (hand_on_particle CLOSED_FIST)) = Some b' \<and>
         velocities b' ! 0 = NaN \<and> velocities b' ! 1 = NaN \<and> velocities b' ! 2 = NaN) \<and>
   (\<exists>b'. bufs (animate plain_hsl (Num 16) no_random (hand_on_particle NONE)) = Some b' \<and>
         velocities b' ! 0 = NaN \<and> velocities b' ! 1 = NaN \<and> velocities b' ! 2 = NaN)"
proof -
  have f: "gesture (hand_on_particle CLOSED_FIST) = CLOSED_FIST \<or>
      gesture (hand_on_particle CLOSED_FIST) = NONE \<or>
      gesture (hand_on_particle CLOSED_FIST) = DOUBLE_PALM"
    and p: "gesture (hand_on_particle NONE) = CLOSED_FIST \<or>
      gesture (hand_on_particle NONE) = NONE \<or>
      gesture (hand_on_particle NONE) = DOUBLE_PALM"
    by (simp_all add: hand_on_particle_facts)
  from velocity_nan_at_hand [OF hand_on_particle_facts(1-3) f hand_on_particle_facts(5-11),
      of plain_hsl "Num 16" no_random]
    velocity_nan_at_hand [OF hand_on_particle_facts(1-3) p hand_on_particle_facts(5-11),
      of plain_hsl "Num 16" no_random]
  show ?thesis
    by (simp add: hand_on_particle_facts eval_nat_numeral)
qed


section \<open>Properties of the double-palm detector and of \<^verbatim>\<open>predict\<close>\<close>

subsection \<open>Auxiliary facts\<close>

lemma detectGesture_open_pose:
  "detectGesture open_pose = Some \<lparr>gtype = OPEN_HAND, strength = Num 1\<rparr>"
  by (simp add: detectGesture_def open_pose_def landmark_def js_index_def distance_def
        isFingerExtended_def js_sub_def js_gt_def Let_def)

lemma detectGesture_not_NONE_length:
  "detectGesture h = Some r \<Longrightarrow> gtype r \<noteq> NONE \<Longrightarrow> 21 \<le> length h"
  by (cases "length h < 21") (auto simp: detectGesture_def)

lemma predictHands_one_timer:
  "doublePalmTimer (fst (predictHands [h1] now fs s)) = doublePalmTimer s"
  by (simp add: predictHands_def Let_def split: option.splits)

lemma predictHands_one_call: "snd (predictHands [h1] now fs s) = None"
  by (simp add: predictHands_def Let_def split: option.splits)

lemma predictHands_two_open_eq:
  assumes "detectGesture h1 = Some r1" and "gtype r1 = OPEN_HAND"
    and "detectGesture h2 = Some r2" and "gtype r2 = OPEN_HAND"
  shows "predictHands [h1, h2] now fs s =
       (if js_lt (js_sub now (doublePalmTimer s)) (Num 1000) \<and> js_gt (doublePalmTimer s) (Num 0)
        then ((fst (predictHands [h1] now fs s))\<lparr>doublePalmTimer := Num 0\<rparr>,
              Some (if \<not> fs then RequestFullscreen else ExitFullscreen))
        else if js_eq (doublePalmTimer s) (Num 0)
        then ((fst (predictHands [h1] now fs s))\<lparr>doublePalmTimer := now\<rparr>, None)
        else (fst (predictHands [h1] now fs s), None))"
proof -
  have "21 \<le> length h1"
    using detectGesture_not_NONE_length [OF assms(1)] assms(2) by simp
  then obtain l9 where "js_index h1 9 = Some l9"
    by (auto simp: js_index_def)
  then show ?thesis
    using assms by (simp add: predictHands_def Let_def)
qed

lemma predictHands_two_open:
  assumes "detectGesture h1 = Some r1" and "gtype r1 = OPEN_HAND"
    and "detectGesture h2 = Some r2" and "gtype r2 = OPEN_HAND"
  shows "\<exists>s3. doublePalmTimer s3 = doublePalmTimer s \<and>
     predictHands [h1, h2] now fs s =
       (if js_lt (js_sub now (doublePalmTimer s)) (Num 1000) \<and> js_gt (doublePalmTimer s) (Num 0)
        then (s3\<lparr>doublePalmTimer := Num 0\<rparr>,
              Some (if \<not> fs then RequestFullscreen else ExitFullscreen))
        else if js_eq (doublePalmTimer s) (Num 0) then (s3\<lparr>doublePalmTimer := now\<rparr>, None)
        else (s3, None))"
  using predictHands_two_open_eq [OF assms] predictHands_one_timer by blast

lemma predictHands_two_cases:
  "predictHands [h1, h2] now fs s = (fst (predictHands [h1] now fs s), None) \<or>
   predictHands [h1, h2] now fs s =
     ((fst (predictHands [h1] now fs s))\<lparr>doublePalmTimer := Num 0\<rparr>,
      Some (if \<not> fs then RequestFullscreen else ExitFullscreen)) \<or>
   predictHands [h1, h2] now fs s =
     ((fst (predictHands [h1] now fs s))\<lparr>doublePalmTimer := Num 0\<rparr>, None) \<or>
   predictHands [h1, h2] now fs s =
     ((fst (predictHands [h1] now fs s))\<lparr>doublePalmTimer := now\<rparr>, None)"
proof (cases "js_index h1 9")
  case None
  then show ?thesis by (simp add: predictHands_def Let_def)
next
  case l9: (Some l9)
  show ?thesis
  proof (cases "detectGesture h1")
    case None
    then show ?thesis using l9 by (simp add: predictHands_def Let_def)
  next
    case g1: (Some g1)
    show ?thesis
    proof (cases "detectGesture h2")
      case None
      then show ?thesis using l9 g1 by (simp add: predictHands_def Let_def)
    next
      case g2: (Some g2)
      show ?thesis using l9 g1 g2 by (simp add: predictHands_def Let_def)
    qed
  qed
qed

lemma predictHands_second_hand:
  "\<exists>t c. predictHands [h1, h2] now fs s =
        ((fst (predictHands [h1] now fs s))\<lparr>doublePalmTimer := t\<rparr>, c)"
proof -
  let ?s = "fst (predictHands [h1] now fs s)"
  have "(?s, None) = (?s\<lparr>doublePalmTimer := doublePalmTimer ?s\<rparr>, None)"
    by simp
  then show ?thesis
    using predictHands_two_cases [of h1 h2 now fs s] by metis
qed

lemma predict_second_hand:
  "\<exists>t. fst (predict setHSL (f\<lparr>detection := Some [h1, h2]\<rparr>) s) =
          (fst (predict setHSL (f\<lparr>detection := Some [h1]\<rparr>) s))\<lparr>doublePalmTimer := t\<rparr> \<and>
        reportedGesture (snd (predict setHSL (f\<lparr>detection := Some [h1, h2]\<rparr>) s)) =
          reportedGesture (snd (predict setHSL (f\<lparr>detection := Some [h1]\<rparr>) s))"
proof (cases "videoReady f \<and> isStreamReady s")
  case True
  obtain s1 c1 where o: "predictHands [h1] (nowPredict f) (fullscreenElement f) s = (s1, c1)"
    by (cases "predictHands [h1] (nowPredict f) (fullscreenElement f) s")
  obtain t c2 where t: "predictHands [h1, h2] (nowPredict f) (fullscreenElement f) s =
      (s1\<lparr>doublePalmTimer := t\<rparr>, c2)"
    using predictHands_second_hand [of h1 h2 "nowPredict f" "fullscreenElement f" s] o
    by auto
  show ?thesis
    using True t o by (auto simp: predict_def animate_timer)
next
  case False
  have e: "fst (predict setHSL (f\<lparr>detection := d\<rparr>) s) =
      animate setHSL (nowAnimate f) (randomValues f) s" for d
    using False by (auto simp: predict_def)
  have g: "snd (predict setHSL (f\<lparr>detection := d\<rparr>) s) =
      \<lparr>fullscreenCall = None, reportedGesture = None\<rparr>" for d
    using False by (auto simp: predict_def)
  show ?thesis
    by (rule exI [of _ "doublePalmTimer (animate setHSL (nowAnimate f) (randomValues f) s)"])
       (simp add: e g)
qed

subsection \<open>The stale window\<close>

text \<open>
  Claim C3 says that on a tick where both hands classify as OPEN_HAND, the timer is set
  and \<open>now - timer\<close> is at least 1000 ms, the detector does not fire and restarts the
  window by setting the timer to the current timestamp. The branch of the code for two
  open hands fires when the window is open and starts a window when the timer is 0, and
  has no case for a timer that is set and stale; only the branch for hands that are not
  both open expires a stale timer. The theorem shows what the code does: on such a tick
  it makes no full-screen call, as the claim says, and it leaves the timer at its stale
  value, so that the window is not restarted.
\<close>

theorem stale_window_keeps_timer:
  assumes "detectGesture h1 = Some r1" and "gtype r1 = OPEN_HAND"
    and "detectGesture h2 = Some r2" and "gtype r2 = OPEN_HAND"
    and "doublePalmTimer s = Num t" and "t \<noteq> 0" and "1000 \<le> n - t"
  shows "snd (predictHands [h1, h2] (Num n) fs s) = None \<and>
         doublePalmTimer (fst (predictHands [h1, h2] (Num n) fs s)) = Num t"
proof -
  from predictHands_two_open [OF assms(1-4), of s "Num n" fs] obtain s3 where
    "doublePalmTimer s3 = doublePalmTimer s"
    "predictHands [h1, h2] (Num n) fs s = (s3, None)"
    using assms(5-7) by (auto simp: js_sub_def)
  then show ?thesis using assms(5) by simp
qed

text \<open>
  The theorem in a run of four ticks from an unset timer, without a full-screen call in
  any of them: two spread hands at 5000 ms start the window; one hand at 5500 ms leaves
  the timer alone; two spread hands at 7000 ms and again at 7016 ms meet the stale
  timer, which stays at 5000 ms, so that the second of them, 16 ms after the first, does
  not fire.
\<close>

theorem stale_window_keeps_timer_witness:
  "detectGesture open_pose = Some \<lparr>gtype = OPEN_HAND, strength = Num 1\<rparr> \<and>
   doublePalmTimer idle_state = Num 0 \<and>
   (5000 :: real) \<noteq> 0 \<and> (1000 :: real) \<le> 7000 - 5000 \<and> (1000 :: real) \<le> 7016 - 5000 \<and>
   (\<exists>s1 s2 s3 s4.
      predictHands [open_pose, open_pose] (Num 5000) False idle_state = (s1, None) \<and>
      doublePalmTimer s1 = Num 5000 \<and>
      predictHands [open_pose] (Num 5500) False s1 = (s2, None) \<and>
      doublePalmTimer s2 = Num 5000 \<and>
      predictHands [open_pose, open_pose] (Num 7000) False s2 = (s3, None) \<and>
      doublePalmTimer s3 = Num 5000 \<and>
      predictHands [open_pose, open_pose] (Num 7016) False s3 = (s4, None) \<and>
      doublePalmTimer s4 = Num 5000)"
proof -
  note g = detectGesture_open_pose
  from predictHands_two_open [OF g _ g, of idle_state "Num 5000" False] obtain s0 where
    "predictHands [open_pose, open_pose] (Num 5000) False idle_state =
       (s0\<lparr>doublePalmTimer := Num 5000\<rparr>, None)"
    by (auto simp: js_sub_def js_gt_def idle_state_def)
  then obtain s1 where
    s1: "predictHands [open_pose, open_pose] (Num 5000) False idle_state = (s1, None)"
      "doublePalmTimer s1 = Num 5000"
    by simp
  define s2 where "s2 = fst (predictHands [open_pose] (Num 5500) False s1)"
  have s2: "predictHands [open_pose] (Num 5500) False s1 = (s2, None)"
      "doublePalmTimer s2 = Num 5000"
    using predictHands_one_timer [of open_pose "Num 5500" False s1]
      predictHands_one_call [of open_pose "Num 5500" False s1] s1(2)
    by (simp_all add: s2_def prod_eq_iff)
  define s3 where "s3 = fst (predictHands [open_pose, open_pose] (Num 7000) False s2)"
  have s3: "predictHands [open_pose, open_pose] (Num 7000) False s2 = (s3, None)"
      "doublePalmTimer s3 = Num 5000"
    using stale_window_keeps_timer [OF g _ g _ s2(2), of 7000 False]
    by (simp_all add: s3_def prod_eq_iff)
  define s4 where "s4 = fst (predictHands [open_pose, open_pose] (Num 7016) False s3)"
  have s4: "predictHands [open_pose, open_pose] (Num 7016) False s3 = (s4, None)"
      "doublePalmTimer s4 = Num 5000"
    using stale_window_keeps_timer [OF g _ g _ s3(2), of 7016 False]
    by (simp_all add: s4_def prod_eq_iff)
  show ?thesis
    using s1 s2 s3 s4 by (auto simp: g idle_state_def)
qed

subsection \<open>The debounce scenario\<close>

text \<open>
  Claim C8. The times 0, 500 ms and 1500 ms of the scenario are counted from the first
  tick, whose clock reading \<open>t0\<close> is positive, as every reading of the clock is when
  \<^verbatim>\<open>predict\<close> runs. Starting from an unset timer (the value 0), a tick at \<open>t0\<close> with both
  hands OPEN_HAND makes no full-screen call and sets the timer to \<open>t0\<close>. A second such
  tick at \<open>t0 + 500\<close> makes the full-screen call (the request when the document is not in
  full screen, the exit otherwise) and resets the timer to 0: the two ticks fire exactly
  once. A second tick at \<open>t0 + 1500\<close> instead makes no call: the two ticks fire zero
  times.
\<close>

theorem double_palm_debounce:
  assumes "detectGesture h1 = Some r1" and "gtype r1 = OPEN_HAND"
    and "detectGesture h2 = Some r2" and "gtype r2 = OPEN_HAND"
    and "doublePalmTimer s = Num 0" and "0 < t0"
  shows "\<exists>s1. predictHands [h1, h2] (Num t0) fs s = (s1, None) \<and>
           doublePalmTimer s1 = Num t0 \<and>
           (\<exists>s2. predictHands [h1, h2] (Num (t0 + 500)) fs s1 =
                   (s2, Some (if \<not> fs then RequestFullscreen else ExitFullscreen)) \<and>
                 doublePalmTimer s2 = Num 0) \<and>
           (\<exists>s2. predictHands [h1, h2] (Num (t0 + 1500)) fs s1 = (s2, None))"
proof -
  from predictHands_two_open [OF assms(1-4), of s "Num t0" fs] obtain s3 where
    s3: "doublePalmTimer s3 = doublePalmTimer s"
    "predictHands [h1, h2] (Num t0) fs s = (s3\<lparr>doublePalmTimer := Num t0\<rparr>, None)"
    using assms(5,6) by (auto simp: js_sub_def js_gt_def)
  define s1 where "s1 = s3\<lparr>doublePalmTimer := Num t0\<rparr>"
  have t: "doublePalmTimer s1 = Num t0" by (simp add: s1_def)
  from predictHands_two_open [OF assms(1-4), of s1 "Num (t0 + 500)" fs] obtain s4 where
    "predictHands [h1, h2] (Num (t0 + 500)) fs s1 =
       (s4\<lparr>doublePalmTimer := Num 0\<rparr>, Some (if \<not> fs then RequestFullscreen else ExitFullscreen))"
    using t assms(6) by (auto simp: js_sub_def js_gt_def)
  moreover
  from predictHands_two_open [OF assms(1-4), of s1 "Num (t0 + 1500)" fs] obtain s5 where
    "predictHands [h1, h2] (Num (t0 + 1500)) fs s1 = (s5, None)"
    using t assms(6) by (auto simp: js_sub_def js_gt_def)
  ultimately show ?thesis
    using s3(2) t unfolding s1_def by auto
qed

text \<open>The theorem for two spread hands and a first tick at 100 ms.\<close>

theorem double_palm_debounce_witness:
  "detectGesture open_pose = Some \<lparr>gtype = OPEN_HAND, strength = Num 1\<rparr> \<and>
   doublePalmTimer idle_state = Num 0 \<and> (0 :: real) < 100 \<and>
   (\<exists>s1. predictHands [open_pose, open_pose] (Num 100) False idle_state = (s1, None) \<and>
         doublePalmTimer s1 = Num 100 \<and>
         (\<exists>s2. predictHands [open_pose, open_pose] (Num 600) False s1 =
                 (s2, Some RequestFullscreen) \<and> doublePalmTimer s2 = Num 0) \<and>
         (\<exists>s2. predictHands [open_pose, open_pose] (Num 1600) False s1 = (s2, None)))"
  using double_palm_debounce [OF detectGesture_open_pose _ detectGesture_open_pose,
      of idle_state 100 False]
  by (simp add: detectGesture_open_pose idle_state_def)


subsection \<open>The second hand\<close>

text \<open>
  Claim C10. In a frame where the landmarker finds two hands, the state after \<^verbatim>\<open>predict\<close>
  (which runs \<^verbatim>\<open>animate\<close>) is the state that the frame with the first hand alone gives,
  up to the double-palm timer; the gesture reported to \<^verbatim>\<open>onGestureChange\<close> is the same.
  So the smoothed hand position, the hand presence, the gesture category and strength,
  the particle arrays and the reported gesture do not depend on the second hand: they
  are the same for any two second hands \<open>h2\<close> and \<open>h2'\<close>.
\<close>

theorem second_hand_only_timer:
  "(\<exists>t. fst (predict setHSL (f\<lparr>detection := Some [h1, h2]\<rparr>) s) =
          (fst (predict setHSL (f\<lparr>detection := Some [h1]\<rparr>) s))\<lparr>doublePalmTimer := t\<rparr>) \<and>
   reportedGesture (snd (predict setHSL (f\<lparr>detection := Some [h1, h2]\<rparr>) s)) =
     reportedGesture (snd (predict setHSL (f\<lparr>detection := Some [h1]\<rparr>) s)) \<and>
   handPosition (fst (predict setHSL (f\<lparr>detection := Some [h1, h2]\<rparr>) s)) =
     handPosition (fst (predict setHSL (f\<lparr>detection := Some [h1, h2']\<rparr>) s)) \<and>
   isHandPresent (fst (predict setHSL (f\<lparr>detection := Some [h1, h2]\<rparr>) s)) =
     isHandPresent (fst (predict setHSL (f\<lparr>detection := Some [h1, h2']\<rparr>) s)) \<and>
   gesture (fst (predict setHSL (f\<lparr>detection := Some [h1, h2]\<rparr>) s)) =
     gesture (fst (predict setHSL (f\<lparr>detection := Some [h1, h2']\<rparr>) s)) \<and>
   gestureStrength (fst (predict setHSL (f\<lparr>detection := Some [h1, h2]\<rparr>) s)) =
     gestureStrength (fst (predict setHSL (f\<lparr>detection := Some [h1, h2']\<rparr>) s)) \<and>
   bufs (fst (predict setHSL (f\<lparr>detection := Some [h1, h2]\<rparr>) s)) =
     bufs (fst (predict setHSL (f\<lparr>detection := Some [h1, h2']\<rparr>) s)) \<and>
   reportedGesture (snd (predict setHSL (f\<lparr>detection := Some [h1, h2]\<rparr>) s)) =
     reportedGesture (snd (predict setHSL (f\<lparr>detection := Some [h1, h2']\<rparr>) s))"
proof -
  from predict_second_hand obtain t where
    t: "fst (predict setHSL (f\<lparr>detection := Some [h1, h2]\<rparr>) s) =
          (fst (predict setHSL (f\<lparr>detection := Some [h1]\<rparr>) s))\<lparr>doublePalmTimer := t\<rparr>"
    and r: "reportedGesture (snd (predict setHSL (f\<lparr>detection := Some [h1, h2]\<rparr>) s)) =
          reportedGesture (snd (predict setHSL (f\<lparr>detection := Some [h1]\<rparr>) s))"
    by blast
  from predict_second_hand obtain t' where
    t': "fst (predict setHSL (f\<lparr>detection := Some [h1, h2']\<rparr>) s) =
          (fst (predict setHSL (f\<lparr>detection := Some [h1]\<rparr>) s))\<lparr>doublePalmTimer := t'\<rparr>"
    and r': "reportedGesture (snd (predict setHSL (f\<lparr>detection := Some [h1, h2']\<rparr>) s)) =
          reportedGesture (snd (predict setHSL (f\<lparr>detection := Some [h1]\<rparr>) s))"
    by blast
  have "\<exists>t. fst (predict setHSL (f\<lparr>detection := Some [h1, h2]\<rparr>) s) =
          (fst (predict setHSL (f\<lparr>detection := Some [h1]\<rparr>) s))\<lparr>doublePalmTimer := t\<rparr>"
    using t by (rule exI)
  then show ?thesis
    by (simp add: t t' r r')
qed

end
